theory Spec2Isabelle
  imports Complex_Main
begin

section \<open>Python values\<close>

text \<open>
  The request options (\<open>overrides\<close>) and the authentication claims are \<open>dict[str, Any]\<close>
  decoded from JSON.  \<open>pyval\<close> is the type of such values.  Floats are only carried
  from the options into the calls (temperature, score thresholds), never computed with;
  the literal \<open>0.3\<close> of the source is written \<open>PFloat 0.3\<close>.
\<close>

datatype pyval =
    PNone
  | PBool bool
  | PInt int
  | PFloat real
  | PStr string
  | PList "pyval list"
  | PDict "(string \<times> pyval) list"

type_synonym pydict = "string \<rightharpoonup> pyval"

text \<open>Python's truth value of an object, as \<open>True if x else False\<close> reads it.\<close>

fun truthy :: "pyval \<Rightarrow> bool" where
  "truthy PNone = False"
| "truthy (PBool b) = b"
| "truthy (PInt i) = (i \<noteq> 0)"
| "truthy (PFloat r) = (r \<noteq> 0)"
| "truthy (PStr s) = (s \<noteq> [])"
| "truthy (PList xs) = (xs \<noteq> [])"
| "truthy (PDict kvs) = (kvs \<noteq> [])"

text \<open>\<open>d.get(k)\<close> and \<open>d.get(k, default)\<close>.\<close>

definition dict_get :: "pydict \<Rightarrow> string \<Rightarrow> pyval" where
  "dict_get d k = (case d k of None \<Rightarrow> PNone | Some v \<Rightarrow> v)"

definition dict_get_default :: "pydict \<Rightarrow> string \<Rightarrow> pyval \<Rightarrow> pyval" where
  "dict_get_default d k dflt = (case d k of None \<Rightarrow> dflt | Some v \<Rightarrow> v)"

text \<open>\<open>sep.join(xs)\<close> on strings.\<close>

fun join :: "string \<Rightarrow> string list \<Rightarrow> string" where
  "join sep [] = []"
| "join sep [x] = x"
| "join sep (x # y # ys) = x @ sep @ join sep (y # ys)"

section \<open>Errors\<close>

text \<open>
  Every exception that can leave \<open>run_until_final_call\<close>: the \<open>ValueError\<close> the
  source raises itself, the \<open>IndexError\<close> of \<open>messages[-1]\<close> on an empty list, the
  \<open>KeyError\<close> of \<open>["content"]\<close> on a message without that key, the \<open>TypeError\<close> of
  iterating a value that is not iterable, whatever the prompt builder raises (it is a
  plain function call, so its exception, a \<open>ValueError\<close> for instance, leaves the run as
  it is), and whatever an awaited collaborator raises (\<open>UpstreamError\<close>).
\<close>

datatype error =
    ValueError string
  | IndexError
  | KeyError string
  | TypeError
  | UpstreamError string

section \<open>Messages\<close>

text \<open>
  A chat message is a dictionary with a role and, usually, a content: a plain string,
  a list of parts (text and image parts), or \<open>None\<close>.  The \<open>content\<close> field is \<open>None\<close>
  when the dictionary has no such key.
\<close>

datatype content_part = TextPart string | ImageUrlPart string

datatype content = Str string | Parts "content_part list" | NoneContent

record message =
  role :: string
  content :: "content option"

section \<open>Arguments of the external calls\<close>

text \<open>The keyword arguments of \<open>build_messages\<close> (openai_messages_token_helper).\<close>

record build_messages_args =
  bm_model :: string
  bm_system_prompt :: string
  bm_tools :: "pyval list option"
  bm_few_shots :: "message list"
  bm_past_messages :: "message list"
  bm_new_user_content :: content
  bm_max_tokens :: int
  bm_fallback_to_default :: bool

text \<open>
  The keyword arguments of \<open>openai_client.chat.completions.create\<close>.  \<open>cc_tools\<close> and
  \<open>cc_stream\<close> are \<open>None\<close> where the call does not pass them.
\<close>

record completion_args =
  cc_model :: string
  cc_messages :: "message list"
  cc_temperature :: pyval
  cc_max_tokens :: int
  cc_n :: int
  cc_tools :: "pyval list option"
  cc_stream :: "bool option"
  cc_seed :: pyval

text \<open>The positional arguments of \<open>self.search\<close>, in the order of the call.\<close>

record 'v search_args =
  sa_top :: pyval
  sa_query_text :: string
  sa_filter :: "string option"
  sa_vectors :: "'v list"
  sa_use_text_search :: bool
  sa_use_vector_search :: bool
  sa_use_semantic_ranker :: bool
  sa_use_semantic_captions :: bool
  sa_minimum_search_score :: pyval
  sa_minimum_reranker_score :: pyval

text \<open>
  The trace of a run: the call that builds the search filter, the calls made to the
  prompt builder and the calls awaited on the model, the embedding, the search and the
  image store, in the order they are made.
\<close>

datatype ('v, 'd) call =
    BuildFilter pydict pydict
  | BuildMessages build_messages_args
  | ChatCompletion completion_args
  | TextEmbedding string
  | ImageEmbedding string
  | Search "'v search_args"
  | FetchImage 'd

section \<open>The approach object and its collaborators\<close>

text \<open>
  The attributes of \<open>self\<close> that \<open>run_until_final_call\<close> reads.  The prompt templates,
  the few-shot examples and \<open>ALLOW_NON_GPT_MODELS\<close> come from the base class
  \<open>ChatApproach\<close>; the token limit is computed once in \<open>__init__\<close>, in the text variant
  from \<open>chatgpt_model\<close> and in the vision variant from \<open>gpt4v_model\<close>, the only model name
  that the constructor looks up there.
\<close>

record approach =
  chatgpt_model :: string
  chatgpt_deployment :: "string option"
  chatgpt_token_limit :: int
  query_prompt_template :: string
  query_prompt_few_shots :: "message list"
  follow_up_questions_prompt_content :: string
  ALLOW_NON_GPT_MODELS :: bool

record vision_approach = approach +
  gpt4v_model :: string
  gpt4v_deployment :: "string option"

text \<open>
  What the methods inherited from the base classes, the prompt builder and the external
  services answer.  \<open>'c\<close> is the type of a chat completion, \<open>'v\<close> of a vector query and
  \<open>'d\<close> of a retrieved document.  An awaited call answers \<open>Inl\<close> when it raises, and so
  does the prompt builder: \<open>build_messages\<close> counts tokens with the tokenizer of the
  model it is given and raises, a \<open>ValueError\<close> for a model name it does not know, unless
  \<open>fallback_to_default\<close> is set.
\<close>

record ('c, 'v, 'd) collaborators =
  build_filter :: "pydict \<Rightarrow> pydict \<Rightarrow> string option"
  build_messages :: "build_messages_args \<Rightarrow> error + message list"
  chat_completions_create :: "completion_args \<Rightarrow> string + 'c"
  get_search_query :: "'c \<Rightarrow> string \<Rightarrow> string"
  compute_text_embedding :: "string \<Rightarrow> string + 'v"
  compute_image_embedding :: "string \<Rightarrow> string + 'v"
  search :: "'v search_args \<Rightarrow> string + 'd list"
  format_source :: "bool \<Rightarrow> bool \<Rightarrow> 'd \<Rightarrow> string"
  get_system_prompt :: "pyval \<Rightarrow> string \<Rightarrow> string"
  serialize_for_results :: "'d \<Rightarrow> pyval"
  fetch_image :: "'d \<Rightarrow> string + string option"

text \<open>
  Modelled from the spec: \<open>get_sources_content\<close> is a method of the base class
  \<open>Approach\<close> (approaches/approach.py), which is not among the sources.  The spec has it
  emit one formatted string per search result, in order (the output has the length of
  the input); the format of one string is left to the collaborator \<open>format_source\<close>.
\<close>

definition get_sources_content ::
  "('c, 'v, 'd) collaborators \<Rightarrow> 'd list \<Rightarrow> bool \<Rightarrow> bool \<Rightarrow> string list" where
  "get_sources_content env results use_semantic_captions use_image_citation =
     map (format_source env use_semantic_captions use_image_citation) results"

section \<open>Results\<close>

text \<open>
  \<open>ThoughtStep(title, description, props)\<close>; the description is a message list, the
  query text, or the list of serialized results; \<open>props\<close> is \<open>None\<close> when not given.
\<close>

datatype thought_content =
    Messages "message list"
  | Text string
  | Results "pyval list"

record thought_step =
  ts_title :: string
  ts_content :: thought_content
  ts_props :: "(string \<times> pyval) list option"

text \<open>
  The \<open>data_points\<close> dictionary: a key that is not in the dictionary is \<open>None\<close> here, so
  \<open>{}\<close> is the record with both fields \<open>None\<close>.
\<close>

record data_points =
  dp_text :: "string list option"
  dp_images :: "string list option"

definition empty_data_points :: data_points where
  "empty_data_points = \<lparr>dp_text = None, dp_images = None\<rparr>"

record extra_info =
  data_points :: data_points
  thoughts :: "thought_step list"

text \<open>
  What \<open>run_until_final_call\<close> returns.  The final completion is created but not
  awaited: \<open>chat_coroutine\<close> is the pending call, held here as its arguments.
  \<open>ReturnTuple\<close> is the tuple \<open>(extra_info, chat_coroutine)\<close>; \<open>ReturnDict\<close> is the single
  dictionary \<open>{"data_points": ..., "thoughts": ..., "chat_coroutine": ...}\<close>.
\<close>

datatype returned =
    ReturnTuple extra_info completion_args
  | ReturnDict data_points "thought_step list" completion_args

fun returned_data_points :: "returned \<Rightarrow> data_points" where
  "returned_data_points (ReturnTuple info coroutine) = data_points info"
| "returned_data_points (ReturnDict dp ths coroutine) = dp"

fun returned_thoughts :: "returned \<Rightarrow> thought_step list" where
  "returned_thoughts (ReturnTuple info coroutine) = thoughts info"
| "returned_thoughts (ReturnDict dp ths coroutine) = ths"

fun chat_coroutine :: "returned \<Rightarrow> completion_args" where
  "chat_coroutine (ReturnTuple info coroutine) = coroutine"
| "chat_coroutine (ReturnDict dp ths coroutine) = coroutine"

text \<open>Whether the returned object is a 2-tuple, as the signature declares.\<close>

fun is_tuple :: "returned \<Rightarrow> bool" where
  "is_tuple (ReturnTuple info coroutine) = True"
| "is_tuple (ReturnDict dp ths coroutine) = False"

section \<open>Sequencing\<close>

text \<open>
  A computation yields a value or an exception, together with the calls it made.
  \<open>bind\<close> runs the rest only after a value; \<open>await\<close> records a call and turns what the
  collaborator raised into the exception that propagates.
\<close>

type_synonym ('a, 'v, 'd) io = "(error + 'a) \<times> ('v, 'd) call list"

definition return :: "'a \<Rightarrow> ('a, 'v, 'd) io" where
  "return a = (Inr a, [])"

definition raise :: "error \<Rightarrow> ('a, 'v, 'd) io" where
  "raise e = (Inl e, [])"

definition bind :: "('a, 'v, 'd) io \<Rightarrow> ('a \<Rightarrow> ('b, 'v, 'd) io) \<Rightarrow> ('b, 'v, 'd) io" where
  "bind m f =
     (case m of
        (Inl e, calls) \<Rightarrow> (Inl e, calls)
      | (Inr a, calls) \<Rightarrow> (case f a of (r, calls') \<Rightarrow> (r, calls @ calls')))"

definition await :: "('v, 'd) call \<Rightarrow> string + 'a \<Rightarrow> ('a, 'v, 'd) io" where
  "await c answer =
     (case answer of
        Inl e \<Rightarrow> (Inl (UpstreamError e), [c])
      | Inr a \<Rightarrow> (Inr a, [c]))"

text \<open>
  Modelled from the spec: \<open>build_filter\<close> is a method of the base class \<open>Approach\<close>
  (approaches/approach.py), which is not among the sources.  The spec gives its contract
  as \<open>build_filter(options, claims)\<close> answering a filter expression or none, and names no
  failure of it, so the call always returns.  It is the first statement to make a call,
  before the last message is read, and the trace records it.
\<close>

definition call_build_filter ::
  "('c, 'v, 'd) collaborators \<Rightarrow> pydict \<Rightarrow> pydict \<Rightarrow> (string option, 'v, 'd) io" where
  "call_build_filter env overrides auth_claims =
     (Inr (build_filter env overrides auth_claims), [BuildFilter overrides auth_claims])"

text \<open>
  The prompt builder is called as a plain function: what it raises leaves the run as it
  is.
\<close>

definition call_build_messages ::
  "('c, 'v, 'd) collaborators \<Rightarrow> build_messages_args \<Rightarrow> (message list, 'v, 'd) io" where
  "call_build_messages env args = (build_messages env args, [BuildMessages args])"

section \<open>The steps shared by both variants\<close>

text \<open>
  \<open>overrides.get("retrieval_mode") in ["text", "hybrid", None]\<close> and its sibling.
\<close>

definition use_text_search :: "pydict \<Rightarrow> bool" where
  "use_text_search overrides =
     (dict_get overrides ''retrieval_mode'' \<in> set [PStr ''text'', PStr ''hybrid'', PNone])"

definition use_vector_search :: "pydict \<Rightarrow> bool" where
  "use_vector_search overrides =
     (dict_get overrides ''retrieval_mode'' \<in> set [PStr ''vectors'', PStr ''hybrid'', PNone])"

text \<open>
  \<open>original_user_query = messages[-1]["content"]\<close>, followed by the \<open>isinstance\<close> check.
\<close>

definition last_message_content :: "message list \<Rightarrow> error + string" where
  "last_message_content messages =
     (if messages = [] then Inl IndexError
      else case content (last messages) of
             None \<Rightarrow> Inl (KeyError ''content'')
           | Some (Str s) \<Rightarrow> Inr s
           | Some _ \<Rightarrow> Inl (ValueError ''The most recent message content must be a string.''))"

text \<open>\<open>deployment if deployment else model\<close>: \<open>None\<close> and the empty string are false.\<close>

definition deployment_or_model :: "string option \<Rightarrow> string \<Rightarrow> string" where
  "deployment_or_model deployment model =
     (case deployment of None \<Rightarrow> model | Some d \<Rightarrow> if d \<noteq> [] then d else model)"

text \<open>
  \<open>{"model": m, "deployment": d} if d else {"model": m}\<close>, the props of the two prompt
  steps.
\<close>

definition model_props :: "string option \<Rightarrow> string \<Rightarrow> (string \<times> pyval) list" where
  "model_props deployment model =
     (case deployment of
        None \<Rightarrow> [(''model'', PStr model)]
      | Some d \<Rightarrow> if d \<noteq> [] then [(''model'', PStr model), (''deployment'', PStr d)]
                  else [(''model'', PStr model)])"

definition optional_str :: "string option \<Rightarrow> pyval" where
  "optional_str s = (case s of None \<Rightarrow> PNone | Some x \<Rightarrow> PStr x)"

text \<open>The system prompt of the answer step, the same expression in every path.\<close>

definition system_message ::
  "('c, 'v, 'd) collaborators \<Rightarrow> ('a approach_scheme) \<Rightarrow> pydict \<Rightarrow> string" where
  "system_message env self overrides =
     get_system_prompt env (dict_get overrides ''prompt_template'')
       (if truthy (dict_get overrides ''suggest_followup_questions'')
        then follow_up_questions_prompt_content self else '''')"

text \<open>The awaited calls: each records itself in the trace.\<close>

definition await_chat_completion ::
  "('c, 'v, 'd) collaborators \<Rightarrow> completion_args \<Rightarrow> ('c, 'v, 'd) io" where
  "await_chat_completion env args = await (ChatCompletion args) (chat_completions_create env args)"

definition await_text_embedding ::
  "('c, 'v, 'd) collaborators \<Rightarrow> string \<Rightarrow> ('v, 'v, 'd) io" where
  "await_text_embedding env q = await (TextEmbedding q) (compute_text_embedding env q)"

definition await_image_embedding ::
  "('c, 'v, 'd) collaborators \<Rightarrow> string \<Rightarrow> ('v, 'v, 'd) io" where
  "await_image_embedding env q = await (ImageEmbedding q) (compute_image_embedding env q)"

definition await_search ::
  "('c, 'v, 'd) collaborators \<Rightarrow> 'v search_args \<Rightarrow> ('d list, 'v, 'd) io" where
  "await_search env args = await (Search args) (search env args)"

definition await_fetch_image ::
  "('c, 'v, 'd) collaborators \<Rightarrow> 'd \<Rightarrow> (string option, 'v, 'd) io" where
  "await_fetch_image env result = await (FetchImage result) (fetch_image env result)"

section \<open>The text variant (chatreadretrieveread.py)\<close>

text \<open>The tool schema offered to the model in the query step.\<close>

definition tools :: "pyval list" where
  "tools =
     [PDict
        [(''type'', PStr ''function''),
         (''function'',
          PDict
            [(''name'', PStr ''search_sources''),
             (''description'', PStr ''Retrieve sources from the Azure AI Search index''),
             (''parameters'',
              PDict
                [(''type'', PStr ''object''),
                 (''properties'',
                  PDict
                    [(''search_query'',
                      PDict
                        [(''type'', PStr ''string''),
                         (''description'',
                          PStr (''Query string to retrieve documents from azure search eg: ''
                                @ [CHR 0x27] @ ''Health care plan'' @ [CHR 0x27]))])]),
                 (''required'', PList [PStr ''search_query''])])])]]"

text \<open>
  \<open>ChatReadRetrieveReadApproach.run_until_final_call\<close>.  The three steps follow the
  source: the filter, the check of the last message, the query prompt and the awaited
  query completion; the embedding (when vector
  search is on) and the awaited search; then either the branch for no sources, which
  returns one dictionary, or the grounded branch, which returns the tuple.
\<close>

definition run_until_final_call ::
  "'a approach_scheme \<Rightarrow> ('c, 'v, 'd) collaborators \<Rightarrow> message list \<Rightarrow> pydict \<Rightarrow> pydict \<Rightarrow> bool
     \<Rightarrow> (returned, 'v, 'd) io" where
  "run_until_final_call self env messages overrides auth_claims should_stream =
    (let seed = dict_get overrides ''seed'';
         use_semantic_ranker = truthy (dict_get overrides ''semantic_ranker'');
         use_semantic_captions = truthy (dict_get overrides ''semantic_captions'');
         top' = dict_get_default overrides ''top'' (PInt 3);
         minimum_search_score = dict_get_default overrides ''minimum_search_score'' (PFloat 0.0);
         minimum_reranker_score = dict_get_default overrides ''minimum_reranker_score'' (PFloat 0.0)
     in
     bind (call_build_filter env overrides auth_claims) (\<lambda>filter'.
     bind (last_message_content messages, []) (\<lambda>original_user_query.
     let user_query_request = ''Generate search query for: '' @ original_user_query;
         query_response_token_limit = 100
     in
     bind (call_build_messages env
             \<lparr>bm_model = chatgpt_model self,
              bm_system_prompt = query_prompt_template self,
              bm_tools = Some tools,
              bm_few_shots = query_prompt_few_shots self,
              bm_past_messages = butlast messages,
              bm_new_user_content = Str user_query_request,
              bm_max_tokens = chatgpt_token_limit self - query_response_token_limit,
              bm_fallback_to_default = ALLOW_NON_GPT_MODELS self\<rparr>) (\<lambda>query_messages.
     bind (await_chat_completion env
             \<lparr>cc_model = deployment_or_model (chatgpt_deployment self) (chatgpt_model self),
              cc_messages = query_messages,
              cc_temperature = PFloat 0.0,
              cc_max_tokens = query_response_token_limit,
              cc_n = 1,
              cc_tools = Some tools,
              cc_stream = None,
              cc_seed = seed\<rparr>) (\<lambda>chat_completion.
     let query_text = get_search_query env chat_completion original_user_query
     in
     bind (if use_vector_search overrides
           then bind (await_text_embedding env query_text) (\<lambda>vector. return [vector])
           else return []) (\<lambda>vectors.
     bind (await_search env
             \<lparr>sa_top = top',
              sa_query_text = query_text,
              sa_filter = filter',
              sa_vectors = vectors,
              sa_use_text_search = use_text_search overrides,
              sa_use_vector_search = use_vector_search overrides,
              sa_use_semantic_ranker = use_semantic_ranker,
              sa_use_semantic_captions = use_semantic_captions,
              sa_minimum_search_score = minimum_search_score,
              sa_minimum_reranker_score = minimum_reranker_score\<rparr>) (\<lambda>results.
     let sources_content = get_sources_content env results use_semantic_captions False
     in
     if sources_content = [] then
       (let response_token_limit = 1024
        in
        bind (call_build_messages env
                \<lparr>bm_model = chatgpt_model self,
                 bm_system_prompt = system_message env self overrides,
                 bm_tools = None,
                 bm_few_shots = [],
                 bm_past_messages = butlast messages,
                 bm_new_user_content = Str original_user_query,
                 bm_max_tokens = chatgpt_token_limit self - response_token_limit,
                 bm_fallback_to_default = ALLOW_NON_GPT_MODELS self\<rparr>) (\<lambda>messages'.
        return
          (ReturnDict empty_data_points []
             \<lparr>cc_model = deployment_or_model (chatgpt_deployment self) (chatgpt_model self),
              cc_messages = messages',
              cc_temperature = dict_get_default overrides ''temperature'' (PFloat 0.3),
              cc_max_tokens = response_token_limit,
              cc_n = 1,
              cc_tools = None,
              cc_stream = Some should_stream,
              cc_seed = seed\<rparr>)))
     else
       (let content' = join [CHR 0x0A] sources_content;
            response_token_limit = 1024
        in
        bind (call_build_messages env
                \<lparr>bm_model = chatgpt_model self,
                 bm_system_prompt = system_message env self overrides,
                 bm_tools = None,
                 bm_few_shots = [],
                 bm_past_messages = butlast messages,
                 bm_new_user_content =
                   Str (original_user_query @ [CHR 0x0A, CHR 0x0A] @ ''Sources:'' @ [CHR 0x0A]
                        @ content'),
                 bm_max_tokens = chatgpt_token_limit self - response_token_limit,
                 bm_fallback_to_default = ALLOW_NON_GPT_MODELS self\<rparr>) (\<lambda>messages'.
        return
          (ReturnTuple
             \<lparr>data_points = \<lparr>dp_text = Some sources_content, dp_images = None\<rparr>,
              thoughts =
                [\<lparr>ts_title = ''Prompt to generate search query'',
                  ts_content = Messages query_messages,
                  ts_props = Some (model_props (chatgpt_deployment self) (chatgpt_model self))\<rparr>,
                 \<lparr>ts_title = ''Search using generated search query'',
                  ts_content = Text query_text,
                  ts_props =
                    Some [(''use_semantic_captions'', PBool use_semantic_captions),
                          (''use_semantic_ranker'', PBool use_semantic_ranker),
                          (''top'', top'),
                          (''filter'', optional_str filter'),
                          (''use_vector_search'', PBool (use_vector_search overrides)),
                          (''use_text_search'', PBool (use_text_search overrides))]\<rparr>,
                 \<lparr>ts_title = ''Search results'',
                  ts_content = Results (map (serialize_for_results env) results),
                  ts_props = None\<rparr>,
                 \<lparr>ts_title = ''Prompt to generate answer'',
                  ts_content = Messages messages',
                  ts_props = Some (model_props (chatgpt_deployment self) (chatgpt_model self))\<rparr>]\<rparr>
             \<lparr>cc_model = deployment_or_model (chatgpt_deployment self) (chatgpt_model self),
              cc_messages = messages',
              cc_temperature = dict_get_default overrides ''temperature'' (PFloat 0.3),
              cc_max_tokens = response_token_limit,
              cc_n = 1,
              cc_tools = None,
              cc_stream = Some should_stream,
              cc_seed = seed\<rparr>))))))))))"

section \<open>The vision variant (chatreadretrievereadvision.py)\<close>

text \<open>
  \<open>for field in vector_fields\<close>: a list gives its elements, a string its characters, a
  dictionary its keys; any other value raises \<open>TypeError\<close>.
\<close>

fun iterate :: "pyval \<Rightarrow> (pyval list, 'v, 'd) io" where
  "iterate (PList xs) = return xs"
| "iterate (PStr s) = return (map (\<lambda>c. PStr [c]) s)"
| "iterate (PDict kvs) = return (map (\<lambda>kv. PStr (fst kv)) kvs)"
| "iterate v = raise TypeError"

text \<open>
  The loop over the vector fields: a text embedding for the field \<open>"embedding"\<close>, an
  image embedding for any other field, appended in order.
\<close>

fun compute_embeddings ::
  "('c, 'v, 'd) collaborators \<Rightarrow> string \<Rightarrow> pyval list \<Rightarrow> ('v list, 'v, 'd) io" where
  "compute_embeddings env query_text [] = return []"
| "compute_embeddings env query_text (field # fields') =
     bind (if field = PStr ''embedding''
           then await_text_embedding env query_text
           else await_image_embedding env query_text) (\<lambda>vector.
     bind (compute_embeddings env query_text fields') (\<lambda>vectors.
     return (vector # vectors)))"

text \<open>
  The loop over the results: one awaited fetch per result; a URL that is \<open>None\<close> or
  empty is false and not appended.  The list holds the URLs of \<open>image_list\<close>, whose
  entries are \<open>{"image_url": url, "type": "image_url"}\<close>.
\<close>

fun fetch_images ::
  "('c, 'v, 'd) collaborators \<Rightarrow> 'd list \<Rightarrow> (string list, 'v, 'd) io" where
  "fetch_images env [] = return []"
| "fetch_images env (result # results) =
     bind (await_fetch_image env result) (\<lambda>url.
     bind (fetch_images env results) (\<lambda>image_list.
     return (case url of
               None \<Rightarrow> image_list
             | Some u \<Rightarrow> if u \<noteq> [] then u # image_list else image_list)))"

definition send_text_to_gptvision :: "pydict \<Rightarrow> bool" where
  "send_text_to_gptvision overrides =
     (dict_get overrides ''gpt4v_input'' \<in> set [PStr ''textAndImages'', PStr ''texts'', PNone])"

definition send_images_to_gptvision :: "pydict \<Rightarrow> bool" where
  "send_images_to_gptvision overrides =
     (dict_get overrides ''gpt4v_input'' \<in> set [PStr ''textAndImages'', PStr ''images'', PNone])"

text \<open>
  \<open>ChatReadRetrieveReadVisionApproach.run_until_final_call\<close>.  There is one path after
  the search: the sources text is appended when text is sent, the images are fetched
  when images are sent, and the tuple is returned.
\<close>

definition run_until_final_call_vision ::
  "'a vision_approach_scheme \<Rightarrow> ('c, 'v, 'd) collaborators \<Rightarrow> message list \<Rightarrow> pydict \<Rightarrow> pydict
     \<Rightarrow> bool \<Rightarrow> (returned, 'v, 'd) io" where
  "run_until_final_call_vision self env messages overrides auth_claims should_stream =
    (let seed = dict_get overrides ''seed'';
         use_semantic_ranker = truthy (dict_get overrides ''semantic_ranker'');
         use_semantic_captions = truthy (dict_get overrides ''semantic_captions'');
         top' = dict_get_default overrides ''top'' (PInt 3);
         minimum_search_score = dict_get_default overrides ''minimum_search_score'' (PFloat 0.0);
         minimum_reranker_score = dict_get_default overrides ''minimum_reranker_score'' (PFloat 0.0)
     in
     bind (call_build_filter env overrides auth_claims) (\<lambda>filter'.
     let vector_fields = dict_get_default overrides ''vector_fields'' (PList [PStr ''embedding''])
     in
     bind (last_message_content messages, []) (\<lambda>original_user_query.
     let past_messages = butlast messages;
         user_query_request = ''Generate search query for: '' @ original_user_query;
         query_response_token_limit = 100;
         query_model = chatgpt_model self;
         query_deployment = chatgpt_deployment self
     in
     bind (call_build_messages env
             \<lparr>bm_model = query_model,
              bm_system_prompt = query_prompt_template self,
              bm_tools = None,
              bm_few_shots = query_prompt_few_shots self,
              bm_past_messages = past_messages,
              bm_new_user_content = Str user_query_request,
              bm_max_tokens = chatgpt_token_limit self - query_response_token_limit,
              bm_fallback_to_default = False\<rparr>) (\<lambda>query_messages.
     bind (await_chat_completion env
             \<lparr>cc_model = deployment_or_model query_deployment query_model,
              cc_messages = query_messages,
              cc_temperature = PFloat 0.0,
              cc_max_tokens = query_response_token_limit,
              cc_n = 1,
              cc_tools = None,
              cc_stream = None,
              cc_seed = seed\<rparr>) (\<lambda>chat_completion.
     let query_text = get_search_query env chat_completion original_user_query
     in
     bind (if use_vector_search overrides
           then bind (iterate vector_fields) (compute_embeddings env query_text)
           else return []) (\<lambda>vectors.
     bind (await_search env
             \<lparr>sa_top = top',
              sa_query_text = query_text,
              sa_filter = filter',
              sa_vectors = vectors,
              sa_use_text_search = use_text_search overrides,
              sa_use_vector_search = use_vector_search overrides,
              sa_use_semantic_ranker = use_semantic_ranker,
              sa_use_semantic_captions = use_semantic_captions,
              sa_minimum_search_score = minimum_search_score,
              sa_minimum_reranker_score = minimum_reranker_score\<rparr>) (\<lambda>results.
     let sources_content = get_sources_content env results use_semantic_captions True;
         content' = join [CHR 0x0A] sources_content;
         user_content = [TextPart original_user_query];
         user_content =
           (if send_text_to_gptvision overrides
            then user_content @ [TextPart ([CHR 0x0A, CHR 0x0A] @ ''Sources:'' @ [CHR 0x0A] @ content')]
            else user_content)
     in
     bind (if send_images_to_gptvision overrides then fetch_images env results
           else return []) (\<lambda>image_list.
     let user_content =
           (if send_images_to_gptvision overrides
            then user_content @ map ImageUrlPart image_list
            else user_content);
         response_token_limit = 1024
     in
     bind (call_build_messages env
             \<lparr>bm_model = gpt4v_model self,
              bm_system_prompt = system_message env self overrides,
              bm_tools = None,
              bm_few_shots = [],
              bm_past_messages = butlast messages,
              bm_new_user_content = Parts user_content,
              bm_max_tokens = chatgpt_token_limit self - response_token_limit,
              bm_fallback_to_default = ALLOW_NON_GPT_MODELS self\<rparr>) (\<lambda>messages'.
     return
       (ReturnTuple
          \<lparr>data_points = \<lparr>dp_text = Some sources_content, dp_images = Some image_list\<rparr>,
           thoughts =
             [\<lparr>ts_title = ''Prompt to generate search query'',
               ts_content = Messages query_messages,
               ts_props = Some (model_props query_deployment query_model)\<rparr>,
              \<lparr>ts_title = ''Search using generated search query'',
               ts_content = Text query_text,
               ts_props =
                 Some [(''use_semantic_captions'', PBool use_semantic_captions),
                       (''use_semantic_ranker'', PBool use_semantic_ranker),
                       (''top'', top'),
                       (''filter'', optional_str filter'),
                       (''vector_fields'', vector_fields),
                       (''use_text_search'', PBool (use_text_search overrides))]\<rparr>,
              \<lparr>ts_title = ''Search results'',
               ts_content = Results (map (serialize_for_results env) results),
               ts_props = None\<rparr>,
              \<lparr>ts_title = ''Prompt to generate answer'',
               ts_content = Messages messages',
               ts_props = Some (model_props (gpt4v_deployment self) (gpt4v_model self))\<rparr>]\<rparr>
          \<lparr>cc_model = deployment_or_model (gpt4v_deployment self) (gpt4v_model self),
           cc_messages = messages',
           cc_temperature = dict_get_default overrides ''temperature'' (PFloat 0.3),
           cc_max_tokens = response_token_limit,
           cc_n = 1,
           cc_tools = None,
           cc_stream = Some should_stream,
           cc_seed = seed\<rparr>))))))))))"

section \<open>The parts of a run, by name\<close>

text \<open>
  The arguments of each call and the pieces of the result, as the two functions above
  build them, named so that the properties below can speak about them.  The section
  on the structure of a run proves that the functions are made of exactly these parts.
\<close>

definition search_arguments ::
  "('c, 'v, 'd) collaborators \<Rightarrow> pydict \<Rightarrow> pydict \<Rightarrow> string \<Rightarrow> 'v list \<Rightarrow> 'v search_args" where
  "search_arguments env overrides auth_claims query_text vectors =
     \<lparr>sa_top = dict_get_default overrides ''top'' (PInt 3),
      sa_query_text = query_text,
      sa_filter = build_filter env overrides auth_claims,
      sa_vectors = vectors,
      sa_use_text_search = use_text_search overrides,
      sa_use_vector_search = use_vector_search overrides,
      sa_use_semantic_ranker = truthy (dict_get overrides ''semantic_ranker''),
      sa_use_semantic_captions = truthy (dict_get overrides ''semantic_captions''),
      sa_minimum_search_score = dict_get_default overrides ''minimum_search_score'' (PFloat 0.0),
      sa_minimum_reranker_score = dict_get_default overrides ''minimum_reranker_score'' (PFloat 0.0)\<rparr>"

definition sources_block :: "string list \<Rightarrow> string" where
  "sources_block sources_content =
     [CHR 0x0A, CHR 0x0A] @ ''Sources:'' @ [CHR 0x0A] @ join [CHR 0x0A] sources_content"

definition prompt_step :: "string \<Rightarrow> message list \<Rightarrow> string option \<Rightarrow> string \<Rightarrow> thought_step" where
  "prompt_step title' msgs deployment model =
     \<lparr>ts_title = title', ts_content = Messages msgs,
      ts_props = Some (model_props deployment model)\<rparr>"

definition results_step :: "('c, 'v, 'd) collaborators \<Rightarrow> 'd list \<Rightarrow> thought_step" where
  "results_step env results =
     \<lparr>ts_title = ''Search results'',
      ts_content = Results (map (serialize_for_results env) results),
      ts_props = None\<rparr>"

subsection \<open>Text variant\<close>

definition query_prompt :: "'a approach_scheme \<Rightarrow> message list \<Rightarrow> string \<Rightarrow> build_messages_args" where
  "query_prompt self messages q =
     \<lparr>bm_model = chatgpt_model self,
      bm_system_prompt = query_prompt_template self,
      bm_tools = Some tools,
      bm_few_shots = query_prompt_few_shots self,
      bm_past_messages = butlast messages,
      bm_new_user_content = Str (''Generate search query for: '' @ q),
      bm_max_tokens = chatgpt_token_limit self - 100,
      bm_fallback_to_default = ALLOW_NON_GPT_MODELS self\<rparr>"

definition query_completion :: "'a approach_scheme \<Rightarrow> pydict \<Rightarrow> message list \<Rightarrow> completion_args" where
  "query_completion self overrides query_messages =
     \<lparr>cc_model = deployment_or_model (chatgpt_deployment self) (chatgpt_model self),
      cc_messages = query_messages,
      cc_temperature = PFloat 0.0,
      cc_max_tokens = 100,
      cc_n = 1,
      cc_tools = Some tools,
      cc_stream = None,
      cc_seed = dict_get overrides ''seed''\<rparr>"

definition query_vectors ::
  "('c, 'v, 'd) collaborators \<Rightarrow> pydict \<Rightarrow> string \<Rightarrow> ('v list, 'v, 'd) io" where
  "query_vectors env overrides query_text =
     (if use_vector_search overrides
      then bind (await_text_embedding env query_text) (\<lambda>vector. return [vector])
      else return [])"

definition answer_prompt ::
  "'a approach_scheme \<Rightarrow> ('c, 'v, 'd) collaborators \<Rightarrow> message list \<Rightarrow> pydict \<Rightarrow> string
     \<Rightarrow> build_messages_args" where
  "answer_prompt self env messages overrides new_user_content =
     \<lparr>bm_model = chatgpt_model self,
      bm_system_prompt = system_message env self overrides,
      bm_tools = None,
      bm_few_shots = [],
      bm_past_messages = butlast messages,
      bm_new_user_content = Str new_user_content,
      bm_max_tokens = chatgpt_token_limit self - 1024,
      bm_fallback_to_default = ALLOW_NON_GPT_MODELS self\<rparr>"

definition answer_completion ::
  "'a approach_scheme \<Rightarrow> pydict \<Rightarrow> bool \<Rightarrow> message list \<Rightarrow> completion_args" where
  "answer_completion self overrides should_stream messages' =
     \<lparr>cc_model = deployment_or_model (chatgpt_deployment self) (chatgpt_model self),
      cc_messages = messages',
      cc_temperature = dict_get_default overrides ''temperature'' (PFloat 0.3),
      cc_max_tokens = 1024,
      cc_n = 1,
      cc_tools = None,
      cc_stream = Some should_stream,
      cc_seed = dict_get overrides ''seed''\<rparr>"

definition search_step ::
  "('c, 'v, 'd) collaborators \<Rightarrow> pydict \<Rightarrow> pydict \<Rightarrow> string \<Rightarrow> thought_step" where
  "search_step env overrides auth_claims query_text =
     \<lparr>ts_title = ''Search using generated search query'',
      ts_content = Text query_text,
      ts_props =
        Some [(''use_semantic_captions'', PBool (truthy (dict_get overrides ''semantic_captions''))),
              (''use_semantic_ranker'', PBool (truthy (dict_get overrides ''semantic_ranker''))),
              (''top'', dict_get_default overrides ''top'' (PInt 3)),
              (''filter'', optional_str (build_filter env overrides auth_claims)),
              (''use_vector_search'', PBool (use_vector_search overrides)),
              (''use_text_search'', PBool (use_text_search overrides))]\<rparr>"

definition sources_of :: "('c, 'v, 'd) collaborators \<Rightarrow> pydict \<Rightarrow> bool \<Rightarrow> 'd list \<Rightarrow> string list" where
  "sources_of env overrides use_image_citation results =
     get_sources_content env results (truthy (dict_get overrides ''semantic_captions''))
       use_image_citation"

definition answer_step ::
  "'a approach_scheme \<Rightarrow> ('c, 'v, 'd) collaborators \<Rightarrow> message list \<Rightarrow> pydict \<Rightarrow> pydict \<Rightarrow> bool
     \<Rightarrow> string \<Rightarrow> message list \<Rightarrow> string \<Rightarrow> 'd list \<Rightarrow> (returned, 'v, 'd) io" where
  "answer_step self env messages overrides auth_claims should_stream q query_messages query_text
       results =
     (if results = [] then
        bind (call_build_messages env (answer_prompt self env messages overrides q)) (\<lambda>messages'.
        return (ReturnDict empty_data_points []
                  (answer_completion self overrides should_stream messages')))
      else
        bind (call_build_messages env
                (answer_prompt self env messages overrides
                   (q @ sources_block (sources_of env overrides False results)))) (\<lambda>messages'.
        return
          (ReturnTuple
             \<lparr>data_points =
                \<lparr>dp_text = Some (sources_of env overrides False results), dp_images = None\<rparr>,
              thoughts =
                [prompt_step ''Prompt to generate search query'' query_messages
                   (chatgpt_deployment self) (chatgpt_model self),
                 search_step env overrides auth_claims query_text,
                 results_step env results,
                 prompt_step ''Prompt to generate answer'' messages'
                   (chatgpt_deployment self) (chatgpt_model self)]\<rparr>
             (answer_completion self overrides should_stream messages'))))"

subsection \<open>Vision variant\<close>

definition vision_query_prompt ::
  "'a approach_scheme \<Rightarrow> message list \<Rightarrow> string \<Rightarrow> build_messages_args" where
  "vision_query_prompt self messages q =
     \<lparr>bm_model = chatgpt_model self,
      bm_system_prompt = query_prompt_template self,
      bm_tools = None,
      bm_few_shots = query_prompt_few_shots self,
      bm_past_messages = butlast messages,
      bm_new_user_content = Str (''Generate search query for: '' @ q),
      bm_max_tokens = chatgpt_token_limit self - 100,
      bm_fallback_to_default = False\<rparr>"

definition vision_query_completion ::
  "'a approach_scheme \<Rightarrow> pydict \<Rightarrow> message list \<Rightarrow> completion_args" where
  "vision_query_completion self overrides query_messages =
     \<lparr>cc_model = deployment_or_model (chatgpt_deployment self) (chatgpt_model self),
      cc_messages = query_messages,
      cc_temperature = PFloat 0.0,
      cc_max_tokens = 100,
      cc_n = 1,
      cc_tools = None,
      cc_stream = None,
      cc_seed = dict_get overrides ''seed''\<rparr>"

definition vision_query_vectors ::
  "('c, 'v, 'd) collaborators \<Rightarrow> pydict \<Rightarrow> string \<Rightarrow> ('v list, 'v, 'd) io" where
  "vision_query_vectors env overrides query_text =
     (if use_vector_search overrides
      then bind (iterate (dict_get_default overrides ''vector_fields'' (PList [PStr ''embedding''])))
             (compute_embeddings env query_text)
      else return [])"

definition vision_images ::
  "('c, 'v, 'd) collaborators \<Rightarrow> pydict \<Rightarrow> 'd list \<Rightarrow> (string list, 'v, 'd) io" where
  "vision_images env overrides results =
     (if send_images_to_gptvision overrides then fetch_images env results else return [])"

definition vision_user_content ::
  "('c, 'v, 'd) collaborators \<Rightarrow> pydict \<Rightarrow> string \<Rightarrow> 'd list \<Rightarrow> string list \<Rightarrow> content_part list" where
  "vision_user_content env overrides q results image_list =
     [TextPart q]
     @ (if send_text_to_gptvision overrides
        then [TextPart (sources_block (sources_of env overrides True results))] else [])
     @ (if send_images_to_gptvision overrides then map ImageUrlPart image_list else [])"

definition vision_answer_prompt ::
  "'a vision_approach_scheme \<Rightarrow> ('c, 'v, 'd) collaborators \<Rightarrow> message list \<Rightarrow> pydict
     \<Rightarrow> content_part list \<Rightarrow> build_messages_args" where
  "vision_answer_prompt self env messages overrides user_content =
     \<lparr>bm_model = gpt4v_model self,
      bm_system_prompt = system_message env self overrides,
      bm_tools = None,
      bm_few_shots = [],
      bm_past_messages = butlast messages,
      bm_new_user_content = Parts user_content,
      bm_max_tokens = chatgpt_token_limit self - 1024,
      bm_fallback_to_default = ALLOW_NON_GPT_MODELS self\<rparr>"

definition vision_answer_completion ::
  "'a vision_approach_scheme \<Rightarrow> pydict \<Rightarrow> bool \<Rightarrow> message list \<Rightarrow> completion_args" where
  "vision_answer_completion self overrides should_stream messages' =
     \<lparr>cc_model = deployment_or_model (gpt4v_deployment self) (gpt4v_model self),
      cc_messages = messages',
      cc_temperature = dict_get_default overrides ''temperature'' (PFloat 0.3),
      cc_max_tokens = 1024,
      cc_n = 1,
      cc_tools = None,
      cc_stream = Some should_stream,
      cc_seed = dict_get overrides ''seed''\<rparr>"

definition vision_search_step ::
  "('c, 'v, 'd) collaborators \<Rightarrow> pydict \<Rightarrow> pydict \<Rightarrow> string \<Rightarrow> thought_step" where
  "vision_search_step env overrides auth_claims query_text =
     \<lparr>ts_title = ''Search using generated search query'',
      ts_content = Text query_text,
      ts_props =
        Some [(''use_semantic_captions'', PBool (truthy (dict_get overrides ''semantic_captions''))),
              (''use_semantic_ranker'', PBool (truthy (dict_get overrides ''semantic_ranker''))),
              (''top'', dict_get_default overrides ''top'' (PInt 3)),
              (''filter'', optional_str (build_filter env overrides auth_claims)),
              (''vector_fields'',
               dict_get_default overrides ''vector_fields'' (PList [PStr ''embedding''])),
              (''use_text_search'', PBool (use_text_search overrides))]\<rparr>"

definition vision_answer_step ::
  "'a vision_approach_scheme \<Rightarrow> ('c, 'v, 'd) collaborators \<Rightarrow> message list \<Rightarrow> pydict \<Rightarrow> pydict
     \<Rightarrow> bool \<Rightarrow> string \<Rightarrow> message list \<Rightarrow> string \<Rightarrow> 'd list \<Rightarrow> string list \<Rightarrow> (returned, 'v, 'd) io" where
  "vision_answer_step self env messages overrides auth_claims should_stream q query_messages
       query_text results image_list =
     bind (call_build_messages env
             (vision_answer_prompt self env messages overrides
                (vision_user_content env overrides q results image_list))) (\<lambda>messages'.
     return
       (ReturnTuple
          \<lparr>data_points =
             \<lparr>dp_text = Some (sources_of env overrides True results),
              dp_images = Some image_list\<rparr>,
           thoughts =
             [prompt_step ''Prompt to generate search query'' query_messages
                (chatgpt_deployment self) (chatgpt_model self),
              vision_search_step env overrides auth_claims query_text,
              results_step env results,
              prompt_step ''Prompt to generate answer'' messages'
                (gpt4v_deployment self) (gpt4v_model self)]\<rparr>
          (vision_answer_completion self overrides should_stream messages')))"

section \<open>Observing a run\<close>

text \<open>The kinds of call in a trace.\<close>

fun is_embedding_call :: "('v, 'd) call \<Rightarrow> bool" where
  "is_embedding_call (TextEmbedding q) = True"
| "is_embedding_call (ImageEmbedding q) = True"
| "is_embedding_call c = False"

fun is_fetch_call :: "('v, 'd) call \<Rightarrow> bool" where
  "is_fetch_call (FetchImage d) = True"
| "is_fetch_call c = False"

text \<open>
  The URLs the image store resolves for a list of results, in the order of the results:
  a result whose fetch gives \<open>None\<close> (or an empty URL) contributes nothing.
\<close>

fun resolved_urls :: "('c, 'v, 'd) collaborators \<Rightarrow> 'd list \<Rightarrow> string list" where
  "resolved_urls env [] = []"
| "resolved_urls env (d # ds) =
     (case fetch_image env d of
        Inr (Some u) \<Rightarrow> if u \<noteq> [] then u # resolved_urls env ds else resolved_urls env ds
      | _ \<Rightarrow> resolved_urls env ds)"

text \<open>What a run returned, if it returned: the metadata and the shape of the object.\<close>

definition result_data_points :: "(returned, 'v, 'd) io \<Rightarrow> data_points option" where
  "result_data_points run =
     (case fst run of Inl e \<Rightarrow> None | Inr r \<Rightarrow> Some (returned_data_points r))"

definition result_thoughts :: "(returned, 'v, 'd) io \<Rightarrow> thought_step list option" where
  "result_thoughts run =
     (case fst run of Inl e \<Rightarrow> None | Inr r \<Rightarrow> Some (returned_thoughts r))"

definition result_is_tuple :: "(returned, 'v, 'd) io \<Rightarrow> bool option" where
  "result_is_tuple run = (case fst run of Inl e \<Rightarrow> None | Inr r \<Rightarrow> Some (is_tuple r))"

text \<open>The new user content of the last prompt built in a trace.\<close>

fun final_user_content :: "('v, 'd) call list \<Rightarrow> content option" where
  "final_user_content [] = None"
| "final_user_content (c # cs) =
     (case final_user_content cs of
        Some u \<Rightarrow> Some u
      | None \<Rightarrow> (case c of BuildMessages args \<Rightarrow> Some (bm_new_user_content args) | _ \<Rightarrow> None))"

text \<open>The exception a run raised, if it raised.\<close>

definition result_error :: "(returned, 'v, 'd) io \<Rightarrow> error option" where
  "result_error run = (case fst run of Inl e \<Rightarrow> Some e | Inr r \<Rightarrow> None)"

text \<open>
  Two runs are alike in what the caller sees beside the pending completion: the same
  calls were made, the same exception was raised if any, and the same \<open>data_points\<close> and
  \<open>thoughts\<close> were returned.
\<close>

definition same_metadata :: "(returned, 'v, 'd) io \<Rightarrow> (returned, 'v, 'd) io \<Rightarrow> bool" where
  "same_metadata run run' =
     (snd run = snd run' \<and> result_error run = result_error run'
      \<and> result_data_points run = result_data_points run'
      \<and> result_thoughts run = result_thoughts run')"

text \<open>
  Two sets of collaborators give the same answer to a call; and they have the same
  methods of the approach object itself, which are not external.
\<close>

fun same_answer ::
  "('c, 'v, 'd) collaborators \<Rightarrow> ('c, 'v, 'd) collaborators \<Rightarrow> ('v, 'd) call \<Rightarrow> bool" where
  "same_answer env env' (BuildFilter overrides auth_claims) =
     (build_filter env overrides auth_claims = build_filter env' overrides auth_claims)"
| "same_answer env env' (BuildMessages args) = (build_messages env args = build_messages env' args)"
| "same_answer env env' (ChatCompletion args) =
     (chat_completions_create env args = chat_completions_create env' args)"
| "same_answer env env' (TextEmbedding q) =
     (compute_text_embedding env q = compute_text_embedding env' q)"
| "same_answer env env' (ImageEmbedding q) =
     (compute_image_embedding env q = compute_image_embedding env' q)"
| "same_answer env env' (Search args) = (search env args = search env' args)"
| "same_answer env env' (FetchImage d) = (fetch_image env d = fetch_image env' d)"

definition same_methods :: "('c, 'v, 'd) collaborators \<Rightarrow> ('c, 'v, 'd) collaborators \<Rightarrow> bool" where
  "same_methods env env' =
     (build_filter env = build_filter env' \<and> get_search_query env = get_search_query env'
      \<and> format_source env = format_source env' \<and> get_system_prompt env = get_system_prompt env'
      \<and> serialize_for_results env = serialize_for_results env')"

section \<open>A concrete setting\<close>

text \<open>
  An approach object, a one-message conversation and collaborators that answer from a
  fixed list of documents: a document is a citation key, a content and an optional image
  URL; the model answers the query step with a fixed query; the prompt builder puts the
  system prompt, the few-shots, the history and the new user content in a row, and, as
  the library does, raises \<open>ValueError\<close> for a model name it has no tokenizer for when
  \<open>fallback_to_default\<close> is off.
\<close>

type_synonym document = "string \<times> string \<times> string option"

definition example_approach :: approach where
  "example_approach =
     \<lparr>chatgpt_model = ''gpt-4o'',
      chatgpt_deployment = Some ''chat'',
      chatgpt_token_limit = 128000,
      query_prompt_template = ''Generate a search query.'',
      query_prompt_few_shots = [],
      follow_up_questions_prompt_content = ''Generate three follow-up questions.'',
      ALLOW_NON_GPT_MODELS = True\<rparr>"

definition example_vision_approach :: vision_approach where
  "example_vision_approach =
     \<lparr>chatgpt_model = ''gpt-4o'',
      chatgpt_deployment = Some ''chat'',
      chatgpt_token_limit = 128000,
      query_prompt_template = ''Generate a search query.'',
      query_prompt_few_shots = [],
      follow_up_questions_prompt_content = ''Generate three follow-up questions.'',
      ALLOW_NON_GPT_MODELS = True,
      gpt4v_model = ''gpt-4o'',
      gpt4v_deployment = None\<rparr>"

definition known_models :: "string list" where
  "known_models = [''gpt-35-turbo'', ''gpt-4'', ''gpt-4o'']"

definition example_env :: "document list \<Rightarrow> (string, string, document) collaborators" where
  "example_env documents =
     \<lparr>build_filter = (\<lambda>overrides auth_claims. None),
      build_messages =
        (\<lambda>args. if bm_model args \<notin> set known_models \<and> \<not> bm_fallback_to_default args
                then Inl (ValueError ''Expected valid OpenAI GPT model name'')
                else Inr (\<lparr>role = ''system'', content = Some (Str (bm_system_prompt args))\<rparr>
                          # bm_few_shots args @ bm_past_messages args
                          @ [\<lparr>role = ''user'', content = Some (bm_new_user_content args)\<rparr>])),
      chat_completions_create = (\<lambda>args. Inr ''return policy''),
      get_search_query = (\<lambda>completion original. completion),
      compute_text_embedding = (\<lambda>q. Inr (''text embedding of '' @ q)),
      compute_image_embedding = (\<lambda>q. Inr (''image embedding of '' @ q)),
      search = (\<lambda>args. Inr documents),
      format_source = (\<lambda>use_semantic_captions use_image_citation d. fst d @ '': '' @ fst (snd d)),
      get_system_prompt = (\<lambda>override follow_up. ''Answer from the sources.'' @ follow_up),
      serialize_for_results = (\<lambda>d. PDict [(''sourcepage'', PStr (fst d)), (''content'', PStr (fst (snd d)))]),
      fetch_image = (\<lambda>d. Inr (snd (snd d)))\<rparr>"

definition example_messages :: "message list" where
  "example_messages = [\<lparr>role = ''user'', content = Some (Str ''What is the return policy?'')\<rparr>]"

definition example_documents :: "document list" where
  "example_documents =
     [(''policy.pdf#p3'', ''Returns accepted within 30 days.'', Some ''https://blob/policy-p3.png''),
      (''faq.pdf#p1'', ''Keep the receipt.'', None)]"

section \<open>The structure of a run\<close>

lemmas part_defs = search_arguments_def sources_block_def prompt_step_def results_step_def
  query_prompt_def query_completion_def query_vectors_def answer_prompt_def answer_completion_def
  search_step_def sources_of_def answer_step_def

lemmas vision_part_defs = search_arguments_def sources_block_def prompt_step_def results_step_def
  vision_query_prompt_def vision_query_completion_def vision_query_vectors_def vision_images_def
  vision_user_content_def vision_answer_prompt_def vision_answer_completion_def
  vision_search_step_def sources_of_def vision_answer_step_def

lemma bind_call_build_filter:
  "bind (call_build_filter env overrides auth_claims) f =
     bind (call_build_filter env overrides auth_claims)
       (\<lambda>filter'. f (build_filter env overrides auth_claims))"
  by (simp add: bind_def call_build_filter_def)

lemma run_text_parts:
  "run_until_final_call self env messages overrides auth_claims should_stream =
     bind (call_build_filter env overrides auth_claims) (\<lambda>filter'.
     bind (last_message_content messages, []) (\<lambda>q.
     bind (call_build_messages env (query_prompt self messages q)) (\<lambda>query_messages.
     bind (await_chat_completion env (query_completion self overrides query_messages)) (\<lambda>c.
     bind (query_vectors env overrides (get_search_query env c q)) (\<lambda>vectors.
     bind (await_search env
             (search_arguments env overrides auth_claims (get_search_query env c q) vectors)) (\<lambda>results.
     answer_step self env messages overrides auth_claims should_stream q query_messages
       (get_search_query env c q) results))))))"
  unfolding run_until_final_call_def part_defs Let_def get_sources_content_def
  by (subst bind_call_build_filter) (simp cong: if_cong)

lemma run_vision_parts:
  "run_until_final_call_vision self env messages overrides auth_claims should_stream =
     bind (call_build_filter env overrides auth_claims) (\<lambda>filter'.
     bind (last_message_content messages, []) (\<lambda>q.
     bind (call_build_messages env (vision_query_prompt self messages q)) (\<lambda>query_messages.
     bind (await_chat_completion env (vision_query_completion self overrides query_messages)) (\<lambda>c.
     bind (vision_query_vectors env overrides (get_search_query env c q)) (\<lambda>vectors.
     bind (await_search env
             (search_arguments env overrides auth_claims (get_search_query env c q) vectors)) (\<lambda>results.
     bind (vision_images env overrides results) (\<lambda>image_list.
     vision_answer_step self env messages overrides auth_claims should_stream q query_messages
       (get_search_query env c q) results image_list)))))))"
  unfolding run_until_final_call_vision_def vision_part_defs Let_def
  by (subst bind_call_build_filter)
     (cases "send_text_to_gptvision overrides"; cases "send_images_to_gptvision overrides";
      simp)

subsection \<open>Values and traces of the steps\<close>

lemma fst_bind: "fst (bind m f) = (case fst m of Inl e \<Rightarrow> Inl e | Inr a \<Rightarrow> fst (f a))"
  by (cases m) (auto simp: bind_def split: sum.splits prod.splits)

lemma snd_bind: "snd (bind m f) = (case fst m of Inl e \<Rightarrow> snd m | Inr a \<Rightarrow> snd m @ snd (f a))"
  by (cases m) (auto simp: bind_def split: sum.splits prod.splits)

lemma last_message_content_Inr:
  "last_message_content messages = Inr q \<longleftrightarrow>
     messages \<noteq> [] \<and> content (last messages) = Some (Str q)"
  by (auto simp: last_message_content_def split: option.splits content.splits)

lemma last_message_content_cases:
  obtains (invalid) e where "last_message_content messages = Inl e"
  | (valid) q where "last_message_content messages = Inr q"
  by (cases "last_message_content messages") auto

lemma last_message_content_value_error:
  "(\<exists>m. last_message_content messages = Inl (ValueError m)) \<longleftrightarrow>
     messages \<noteq> [] \<and> (\<exists>c. content (last messages) = Some c \<and> (\<forall>s. c \<noteq> Str s))"
  by (auto simp: last_message_content_def split: option.splits content.splits)

lemma last_message_content_not_string:
  "messages \<noteq> [] \<Longrightarrow> content (last messages) = Some c \<Longrightarrow> \<forall>s. c \<noteq> Str s \<Longrightarrow>
     last_message_content messages
       = Inl (ValueError ''The most recent message content must be a string.'')"
  by (auto simp: last_message_content_def split: option.splits content.splits)

lemma call_build_filter_value [simp]:
  "fst (call_build_filter env overrides auth_claims) = Inr (build_filter env overrides auth_claims)"
  by (simp add: call_build_filter_def)

lemma call_build_filter_trace [simp]:
  "snd (call_build_filter env overrides auth_claims) = [BuildFilter overrides auth_claims]"
  by (simp add: call_build_filter_def)

lemma call_build_messages_value [simp]: "fst (call_build_messages env a) = build_messages env a"
  by (simp add: call_build_messages_def)

lemma call_build_messages_trace [simp]: "snd (call_build_messages env a) = [BuildMessages a]"
  by (simp add: call_build_messages_def)

lemma await_search_value:
  "fst (await_search env a) = (case search env a of Inl e \<Rightarrow> Inl (UpstreamError e) | Inr r \<Rightarrow> Inr r)"
  by (simp add: await_search_def await_def split: sum.splits)

lemma await_search_trace [simp]: "snd (await_search env a) = [Search a]"
  by (simp add: await_search_def await_def split: sum.splits)

lemma await_chat_completion_value:
  "fst (await_chat_completion env a) =
     (case chat_completions_create env a of Inl e \<Rightarrow> Inl (UpstreamError e) | Inr r \<Rightarrow> Inr r)"
  by (simp add: await_chat_completion_def await_def split: sum.splits)

lemma await_chat_completion_trace [simp]: "snd (await_chat_completion env a) = [ChatCompletion a]"
  by (simp add: await_chat_completion_def await_def split: sum.splits)

lemma await_text_embedding_trace [simp]: "snd (await_text_embedding env q) = [TextEmbedding q]"
  by (simp add: await_text_embedding_def await_def split: sum.splits)

lemma await_image_embedding_trace [simp]: "snd (await_image_embedding env q) = [ImageEmbedding q]"
  by (simp add: await_image_embedding_def await_def split: sum.splits)

lemma await_fetch_image_trace [simp]: "snd (await_fetch_image env d) = [FetchImage d]"
  by (simp add: await_fetch_image_def await_def split: sum.splits)

lemma query_vectors_trace:
  "snd (query_vectors env overrides qt) =
     (if use_vector_search overrides then [TextEmbedding qt] else [])"
  by (simp add: query_vectors_def snd_bind return_def split: sum.splits)

lemma query_vectors_value:
  "fst (query_vectors env overrides qt) =
     (if use_vector_search overrides
      then (case compute_text_embedding env qt of
              Inl e \<Rightarrow> Inl (UpstreamError e) | Inr v \<Rightarrow> Inr [v])
      else Inr [])"
  by (simp add: query_vectors_def fst_bind await_text_embedding_def await_def return_def
           split: sum.splits)

lemma iterate_trace [simp]: "snd (iterate v) = []"
  by (cases v) (simp_all add: return_def raise_def)

lemma compute_embeddings_trace:
  "c \<in> set (snd (compute_embeddings env qt fs)) \<Longrightarrow> is_embedding_call c"
  by (induction fs) (auto simp: snd_bind return_def split: sum.splits if_splits)

lemma vision_query_vectors_trace:
  "c \<in> set (snd (vision_query_vectors env overrides qt)) \<Longrightarrow> is_embedding_call c"
  by (auto simp: vision_query_vectors_def snd_bind return_def
           dest: compute_embeddings_trace split: sum.splits if_splits)

lemma vision_query_vectors_off:
  "\<not> use_vector_search overrides \<Longrightarrow> vision_query_vectors env overrides qt = (Inr [], [])"
  by (simp add: vision_query_vectors_def return_def)

lemma vision_query_vectors_filter:
  "filter is_embedding_call (snd (vision_query_vectors env overrides qt))
     = snd (vision_query_vectors env overrides qt)"
  by (auto simp: filter_id_conv dest: vision_query_vectors_trace)

lemma vision_query_vectors_no_fetch:
  "filter is_fetch_call (snd (vision_query_vectors env overrides qt)) = []"
  by (auto simp: filter_empty_conv dest!: vision_query_vectors_trace elim: is_embedding_call.elims)

lemma fetch_images_trace:
  "c \<in> set (snd (fetch_images env rs)) \<Longrightarrow> is_fetch_call c"
  by (induction rs) (auto simp: snd_bind return_def split: sum.splits)

lemma fetch_images_total:
  "\<forall>d\<in>set rs. \<exists>u. fetch_image env d = Inr u \<Longrightarrow>
     fetch_images env rs = (Inr (resolved_urls env rs), map FetchImage rs)"
  by (induction rs)
     (auto simp: bind_def return_def await_fetch_image_def await_def split: option.splits)

lemma vision_images_trace:
  "c \<in> set (snd (vision_images env overrides rs)) \<Longrightarrow> is_fetch_call c"
  by (auto simp: vision_images_def return_def dest: fetch_images_trace split: if_splits)

lemma vision_images_no_embedding: "filter is_embedding_call (snd (vision_images env overrides rs)) = []"
  by (auto simp: filter_empty_conv dest!: vision_images_trace elim: is_fetch_call.elims)

lemma vision_images_total:
  "\<forall>d\<in>set rs. \<exists>u. fetch_image env d = Inr u \<Longrightarrow>
     vision_images env overrides rs =
       (if send_images_to_gptvision overrides
        then (Inr (resolved_urls env rs), map FetchImage rs) else (Inr [], []))"
  by (simp add: vision_images_def fetch_images_total return_def)

subsection \<open>The answer step in closed form\<close>

lemma answer_step_trace:
  "snd (answer_step self env messages overrides auth_claims should_stream q qm qt results) =
     [BuildMessages (answer_prompt self env messages overrides
        (if results = [] then q else q @ sources_block (sources_of env overrides False results)))]"
  by (simp add: answer_step_def snd_bind return_def split: sum.splits)

lemma answer_step_no_sources:
  "answer_step self env messages overrides auth_claims should_stream q qm qt [] =
     (case build_messages env (answer_prompt self env messages overrides q) of
        Inl e \<Rightarrow> Inl e
      | Inr messages' \<Rightarrow>
          Inr (ReturnDict empty_data_points []
                 (answer_completion self overrides should_stream messages')),
      [BuildMessages (answer_prompt self env messages overrides q)])"
  by (simp add: answer_step_def bind_def call_build_messages_def return_def split: sum.splits)

lemma answer_step_grounded:
  "results \<noteq> [] \<Longrightarrow>
   answer_step self env messages overrides auth_claims should_stream q qm qt results =
     (case build_messages env
             (answer_prompt self env messages overrides
                (q @ sources_block (sources_of env overrides False results))) of
        Inl e \<Rightarrow> Inl e
      | Inr messages' \<Rightarrow>
          Inr (ReturnTuple
                 \<lparr>data_points =
                    \<lparr>dp_text = Some (sources_of env overrides False results), dp_images = None\<rparr>,
                  thoughts =
                    [prompt_step ''Prompt to generate search query'' qm
                       (chatgpt_deployment self) (chatgpt_model self),
                     search_step env overrides auth_claims qt,
                     results_step env results,
                     prompt_step ''Prompt to generate answer'' messages'
                       (chatgpt_deployment self) (chatgpt_model self)]\<rparr>
                 (answer_completion self overrides should_stream messages')),
      [BuildMessages (answer_prompt self env messages overrides
                        (q @ sources_block (sources_of env overrides False results)))])"
  by (simp add: answer_step_def bind_def call_build_messages_def return_def split: sum.splits)

lemma vision_answer_step_trace:
  "snd (vision_answer_step self env messages overrides auth_claims should_stream q qm qt results
          image_list) =
     [BuildMessages (vision_answer_prompt self env messages overrides
                       (vision_user_content env overrides q results image_list))]"
  by (simp add: vision_answer_step_def snd_bind return_def split: sum.splits)

lemma vision_answer_step_eq:
  "vision_answer_step self env messages overrides auth_claims should_stream q qm qt results
       image_list =
     (case build_messages env
             (vision_answer_prompt self env messages overrides
                (vision_user_content env overrides q results image_list)) of
        Inl e \<Rightarrow> Inl e
      | Inr messages' \<Rightarrow>
          Inr (ReturnTuple
                 \<lparr>data_points =
                    \<lparr>dp_text = Some (sources_of env overrides True results),
                     dp_images = Some image_list\<rparr>,
                  thoughts =
                    [prompt_step ''Prompt to generate search query'' qm
                       (chatgpt_deployment self) (chatgpt_model self),
                     vision_search_step env overrides auth_claims qt,
                     results_step env results,
                     prompt_step ''Prompt to generate answer'' messages'
                       (gpt4v_deployment self) (gpt4v_model self)]\<rparr>
                 (vision_answer_completion self overrides should_stream messages')),
      [BuildMessages (vision_answer_prompt self env messages overrides
                        (vision_user_content env overrides q results image_list))])"
  by (simp add: vision_answer_step_def bind_def call_build_messages_def return_def
           split: sum.splits)

subsection \<open>The whole trace\<close>

lemma text_invalid:
  "last_message_content messages = Inl e \<Longrightarrow>
     run_until_final_call self env messages overrides auth_claims should_stream
       = (Inl e, [BuildFilter overrides auth_claims])"
  unfolding run_text_parts by (simp add: bind_def call_build_filter_def)

lemma vision_invalid:
  "last_message_content messages = Inl e \<Longrightarrow>
     run_until_final_call_vision self env messages overrides auth_claims should_stream
       = (Inl e, [BuildFilter overrides auth_claims])"
  unfolding run_vision_parts by (simp add: bind_def call_build_filter_def)

lemma text_trace:
  assumes "last_message_content messages = Inr q"
  shows "snd (run_until_final_call self env messages overrides auth_claims should_stream) =
     BuildFilter overrides auth_claims
     # BuildMessages (query_prompt self messages q)
     # (case build_messages env (query_prompt self messages q) of
          Inl e \<Rightarrow> []
        | Inr qm \<Rightarrow>
            ChatCompletion (query_completion self overrides qm)
            # (case chat_completions_create env (query_completion self overrides qm) of
                 Inl e \<Rightarrow> []
               | Inr c \<Rightarrow>
                   snd (query_vectors env overrides (get_search_query env c q))
                   @ (case fst (query_vectors env overrides (get_search_query env c q)) of
                        Inl e \<Rightarrow> []
                      | Inr vectors \<Rightarrow>
                          Search (search_arguments env overrides auth_claims
                                    (get_search_query env c q) vectors)
                          # (case search env (search_arguments env overrides auth_claims
                                               (get_search_query env c q) vectors) of
                               Inl e \<Rightarrow> []
                             | Inr results \<Rightarrow>
                                 snd (answer_step self env messages overrides auth_claims
                                        should_stream q qm (get_search_query env c q) results)))))"
  unfolding run_text_parts
  by (simp add: snd_bind fst_bind assms await_search_value await_chat_completion_value
           split: sum.split)

lemma vision_trace:
  assumes "last_message_content messages = Inr q"
  shows "snd (run_until_final_call_vision self env messages overrides auth_claims should_stream) =
     BuildFilter overrides auth_claims
     # BuildMessages (vision_query_prompt self messages q)
     # (case build_messages env (vision_query_prompt self messages q) of
          Inl e \<Rightarrow> []
        | Inr qm \<Rightarrow>
            ChatCompletion (vision_query_completion self overrides qm)
            # (case chat_completions_create env (vision_query_completion self overrides qm) of
                 Inl e \<Rightarrow> []
               | Inr c \<Rightarrow>
                   snd (vision_query_vectors env overrides (get_search_query env c q))
                   @ (case fst (vision_query_vectors env overrides (get_search_query env c q)) of
                        Inl e \<Rightarrow> []
                      | Inr vectors \<Rightarrow>
                          Search (search_arguments env overrides auth_claims
                                    (get_search_query env c q) vectors)
                          # (case search env (search_arguments env overrides auth_claims
                                               (get_search_query env c q) vectors) of
                               Inl e \<Rightarrow> []
                             | Inr results \<Rightarrow>
                                 snd (vision_images env overrides results)
                                 @ (case fst (vision_images env overrides results) of
                                      Inl e \<Rightarrow> []
                                    | Inr image_list \<Rightarrow>
                                        snd (vision_answer_step self env messages overrides
                                               auth_claims should_stream q qm
                                               (get_search_query env c q) results image_list))))))"
  unfolding run_vision_parts
  by (simp add: snd_bind fst_bind assms await_search_value await_chat_completion_value
           split: sum.split)

subsection \<open>Reaching the search, and going on from it\<close>

lemma text_reaches_search:
  assumes "Search a \<in> set (snd (run_until_final_call self env messages overrides auth_claims should_stream))"
  shows "\<exists>q qm c vectors.
           messages \<noteq> [] \<and> content (last messages) = Some (Str q) \<and>
           build_messages env (query_prompt self messages q) = Inr qm \<and>
           chat_completions_create env (query_completion self overrides qm) = Inr c \<and>
           fst (query_vectors env overrides (get_search_query env c q)) = Inr vectors \<and>
           a = search_arguments env overrides auth_claims (get_search_query env c q) vectors"
proof (cases messages rule: last_message_content_cases)
  case (invalid e)
  then show ?thesis using assms by (simp add: text_invalid)
next
  case (valid q)
  then have "messages \<noteq> [] \<and> content (last messages) = Some (Str q)"
    by (simp add: last_message_content_Inr)
  then show ?thesis
    using assms
    by (auto simp: text_trace [OF valid] query_vectors_trace answer_step_trace
             split: sum.splits if_splits)
       metis+
qed

lemma text_after_search:
  assumes "messages \<noteq> []" "content (last messages) = Some (Str q)"
    and "build_messages env (query_prompt self messages q) = Inr qm"
    and "chat_completions_create env (query_completion self overrides qm) = Inr c"
    and "fst (query_vectors env overrides (get_search_query env c q)) = Inr vectors"
    and "search env (search_arguments env overrides auth_claims (get_search_query env c q) vectors) = Inr results"
  shows "run_until_final_call self env messages overrides auth_claims should_stream =
     (fst (answer_step self env messages overrides auth_claims should_stream q qm
             (get_search_query env c q) results),
      [BuildFilter overrides auth_claims,
       BuildMessages (query_prompt self messages q),
       ChatCompletion (query_completion self overrides qm)]
      @ snd (query_vectors env overrides (get_search_query env c q))
      @ [Search (search_arguments env overrides auth_claims (get_search_query env c q) vectors)]
      @ snd (answer_step self env messages overrides auth_claims should_stream q qm
               (get_search_query env c q) results))"
proof -
  have q: "last_message_content messages = Inr q"
    using assms(1,2) by (simp add: last_message_content_Inr)
  show ?thesis
    unfolding run_text_parts
    by (rule prod_eqI)
       (simp_all add: snd_bind fst_bind q assms await_search_value await_chat_completion_value)
qed

lemma vision_reaches_search:
  assumes "Search a \<in> set (snd (run_until_final_call_vision self env messages overrides auth_claims should_stream))"
  shows "\<exists>q qm c vectors.
           messages \<noteq> [] \<and> content (last messages) = Some (Str q) \<and>
           build_messages env (vision_query_prompt self messages q) = Inr qm \<and>
           chat_completions_create env (vision_query_completion self overrides qm) = Inr c \<and>
           fst (vision_query_vectors env overrides (get_search_query env c q)) = Inr vectors \<and>
           a = search_arguments env overrides auth_claims (get_search_query env c q) vectors"
proof (cases messages rule: last_message_content_cases)
  case (invalid e)
  then show ?thesis using assms by (simp add: vision_invalid)
next
  case (valid q)
  then have "messages \<noteq> [] \<and> content (last messages) = Some (Str q)"
    by (simp add: last_message_content_Inr)
  then show ?thesis
    using assms
    by (auto simp: vision_trace [OF valid] vision_answer_step_trace
             dest: vision_query_vectors_trace vision_images_trace
             split: sum.splits if_splits)
       metis+
qed

lemma vision_after_search:
  assumes "messages \<noteq> []" "content (last messages) = Some (Str q)"
    and "build_messages env (vision_query_prompt self messages q) = Inr qm"
    and "chat_completions_create env (vision_query_completion self overrides qm) = Inr c"
    and "fst (vision_query_vectors env overrides (get_search_query env c q)) = Inr vectors"
    and "search env (search_arguments env overrides auth_claims (get_search_query env c q) vectors) = Inr results"
    and "fst (vision_images env overrides results) = Inr image_list"
  shows "run_until_final_call_vision self env messages overrides auth_claims should_stream =
     (fst (vision_answer_step self env messages overrides auth_claims should_stream q qm
             (get_search_query env c q) results image_list),
      [BuildFilter overrides auth_claims,
       BuildMessages (vision_query_prompt self messages q),
       ChatCompletion (vision_query_completion self overrides qm)]
      @ snd (vision_query_vectors env overrides (get_search_query env c q))
      @ [Search (search_arguments env overrides auth_claims (get_search_query env c q) vectors)]
      @ snd (vision_images env overrides results)
      @ snd (vision_answer_step self env messages overrides auth_claims should_stream q qm
               (get_search_query env c q) results image_list))"
proof -
  have q: "last_message_content messages = Inr q"
    using assms(1,2) by (simp add: last_message_content_Inr)
  show ?thesis
    unfolding run_vision_parts
    by (rule prod_eqI)
       (simp_all add: snd_bind fst_bind q assms await_search_value await_chat_completion_value)
qed

lemma vision_after_search_bind:
  assumes "messages \<noteq> []" "content (last messages) = Some (Str q)"
    and "build_messages env (vision_query_prompt self messages q) = Inr qm"
    and "chat_completions_create env (vision_query_completion self overrides qm) = Inr c"
    and "fst (vision_query_vectors env overrides (get_search_query env c q)) = Inr vectors"
    and "search env (search_arguments env overrides auth_claims (get_search_query env c q) vectors) = Inr results"
  shows "fst (run_until_final_call_vision self env messages overrides auth_claims should_stream) =
     (case fst (vision_images env overrides results) of
        Inl e \<Rightarrow> Inl e
      | Inr image_list \<Rightarrow>
          fst (vision_answer_step self env messages overrides auth_claims should_stream q qm
                 (get_search_query env c q) results image_list))"
proof -
  have q: "last_message_content messages = Inr q"
    using assms(1,2) by (simp add: last_message_content_Inr)
  show ?thesis
    unfolding run_vision_parts
    by (simp add: fst_bind q assms await_search_value await_chat_completion_value)
qed

lemma text_completion_unique:
  assumes "ChatCompletion c \<in> set (snd (run_until_final_call self env messages overrides auth_claims should_stream))"
  shows "\<exists>q qm. last_message_content messages = Inr q
           \<and> build_messages env (query_prompt self messages q) = Inr qm
           \<and> c = query_completion self overrides qm"
proof (cases messages rule: last_message_content_cases)
  case (invalid e)
  then show ?thesis using assms by (simp add: text_invalid)
next
  case (valid q)
  then show ?thesis
    using assms
    by (auto simp: text_trace [OF valid] query_vectors_trace answer_step_trace
             split: sum.splits if_splits)
       metis+
qed

lemma vision_completion_unique:
  assumes "ChatCompletion c \<in> set (snd (run_until_final_call_vision self env messages overrides auth_claims should_stream))"
  shows "\<exists>q qm. last_message_content messages = Inr q
           \<and> build_messages env (vision_query_prompt self messages q) = Inr qm
           \<and> c = vision_query_completion self overrides qm"
proof (cases messages rule: last_message_content_cases)
  case (invalid e)
  then show ?thesis using assms by (simp add: vision_invalid)
next
  case (valid q)
  then show ?thesis
    using assms
    by (auto simp: vision_trace [OF valid] vision_answer_step_trace
             dest: vision_query_vectors_trace vision_images_trace split: sum.splits)
       metis+
qed

lemma text_embedding_calls:
  assumes "last_message_content messages = Inr q"
  shows "filter is_embedding_call
           (snd (run_until_final_call self env messages overrides auth_claims should_stream)) =
         (case build_messages env (query_prompt self messages q) of
            Inl e \<Rightarrow> []
          | Inr qm \<Rightarrow>
              (case chat_completions_create env (query_completion self overrides qm) of
                 Inl e \<Rightarrow> []
               | Inr c \<Rightarrow> if use_vector_search overrides
                          then [TextEmbedding (get_search_query env c q)] else []))"
  by (simp add: text_trace [OF assms] query_vectors_trace answer_step_trace split: sum.splits)

lemma vision_embedding_calls:
  assumes "last_message_content messages = Inr q"
  shows "filter is_embedding_call
           (snd (run_until_final_call_vision self env messages overrides auth_claims should_stream)) =
         (case build_messages env (vision_query_prompt self messages q) of
            Inl e \<Rightarrow> []
          | Inr qm \<Rightarrow>
              (case chat_completions_create env (vision_query_completion self overrides qm) of
                 Inl e \<Rightarrow> []
               | Inr c \<Rightarrow> snd (vision_query_vectors env overrides (get_search_query env c q))))"
  by (simp add: vision_trace [OF assms] vision_answer_step_trace vision_images_no_embedding
        vision_query_vectors_filter split: sum.splits)

lemma retrieval_mode_text:
  "use_text_search overrides \<longleftrightarrow>
     overrides ''retrieval_mode'' \<in> {None, Some PNone, Some (PStr ''text''), Some (PStr ''hybrid'')}"
  by (auto simp: use_text_search_def dict_get_def split: option.splits)

lemma retrieval_mode_vector:
  "use_vector_search overrides \<longleftrightarrow>
     overrides ''retrieval_mode'' \<in> {None, Some PNone, Some (PStr ''vectors''), Some (PStr ''hybrid'')}"
  by (auto simp: use_vector_search_def dict_get_def split: option.splits)

lemma send_images_iff:
  "send_images_to_gptvision overrides \<longleftrightarrow>
     overrides ''gpt4v_input'' \<in> {None, Some PNone, Some (PStr ''textAndImages''), Some (PStr ''images'')}"
  by (auto simp: send_images_to_gptvision_def dict_get_def split: option.splits)

lemma images_only:
  "overrides ''gpt4v_input'' = Some (PStr ''images'') \<Longrightarrow>
     send_images_to_gptvision overrides \<and> \<not> send_text_to_gptvision overrides"
  by (simp add: send_images_to_gptvision_def send_text_to_gptvision_def dict_get_def)

subsection \<open>Runs against collaborators that answer alike\<close>

lemma same_metadata_refl [simp]: "same_metadata x x"
  by (simp add: same_metadata_def)

lemma bind_agree:
  assumes "\<forall>c\<in>set (snd (bind m f)). S c"
    and "\<forall>c\<in>set (snd m). S c \<Longrightarrow> m' = m"
    and "\<And>a. fst m = Inr a \<Longrightarrow> \<forall>c\<in>set (snd (f a)). S c \<Longrightarrow> f' a = f a"
  shows "bind m' f' = bind m f"
proof -
  have m: "m' = m" using assms(1,2) by (auto simp: snd_bind split: sum.splits)
  show ?thesis
  proof (cases "fst m")
    case (Inl e)
    then show ?thesis by (cases m) (simp add: m bind_def)
  next
    case (Inr a)
    then have "\<forall>c\<in>set (snd (f a)). S c" using assms(1) by (simp add: snd_bind)
    from assms(3) [OF Inr this] show ?thesis using Inr by (cases m) (simp add: m bind_def)
  qed
qed

lemma bind_similar:
  assumes "\<forall>c\<in>set (snd (bind m f)). S c"
    and "\<forall>c\<in>set (snd m). S c \<Longrightarrow> m' = m"
    and "\<And>a. fst m = Inr a \<Longrightarrow> \<forall>c\<in>set (snd (f a)). S c \<Longrightarrow> same_metadata (f' a) (f a)"
  shows "same_metadata (bind m' f') (bind m f)"
proof -
  have m: "m' = m" using assms(1,2) by (auto simp: snd_bind split: sum.splits)
  show ?thesis
  proof (cases "fst m")
    case (Inl e)
    then show ?thesis by (cases m) (simp add: m bind_def)
  next
    case (Inr a)
    then have "\<forall>c\<in>set (snd (f a)). S c" using assms(1) by (simp add: snd_bind)
    from assms(3) [OF Inr this] show ?thesis
      using Inr
      by (simp add: m same_metadata_def snd_bind fst_bind result_error_def result_data_points_def
            result_thoughts_def)
  qed
qed

lemma call_build_filter_agree:
  "\<forall>c\<in>set (snd (call_build_filter env overrides auth_claims)). same_answer env env' c \<Longrightarrow>
     call_build_filter env' overrides auth_claims = call_build_filter env overrides auth_claims"
  by (simp add: call_build_filter_def)

lemma call_build_messages_agree:
  "\<forall>c\<in>set (snd (call_build_messages env args)). same_answer env env' c \<Longrightarrow>
     call_build_messages env' args = call_build_messages env args"
  by (simp add: call_build_messages_def)

lemma await_chat_completion_agree:
  assumes "\<forall>c\<in>set (snd (await_chat_completion env args)). same_answer env env' c"
  shows "await_chat_completion env' args = await_chat_completion env args"
proof -
  from assms have "chat_completions_create env args = chat_completions_create env' args" by simp
  then show ?thesis by (simp add: await_chat_completion_def)
qed

lemma await_search_agree:
  assumes "\<forall>c\<in>set (snd (await_search env args)). same_answer env env' c"
  shows "await_search env' args = await_search env args"
proof -
  from assms have "search env args = search env' args" by simp
  then show ?thesis by (simp add: await_search_def)
qed

lemma await_text_embedding_agree:
  assumes "\<forall>c\<in>set (snd (await_text_embedding env q)). same_answer env env' c"
  shows "await_text_embedding env' q = await_text_embedding env q"
proof -
  from assms have "compute_text_embedding env q = compute_text_embedding env' q" by simp
  then show ?thesis by (simp add: await_text_embedding_def)
qed

lemma await_image_embedding_agree:
  assumes "\<forall>c\<in>set (snd (await_image_embedding env q)). same_answer env env' c"
  shows "await_image_embedding env' q = await_image_embedding env q"
proof -
  from assms have "compute_image_embedding env q = compute_image_embedding env' q" by simp
  then show ?thesis by (simp add: await_image_embedding_def)
qed

lemma await_fetch_image_agree:
  assumes "\<forall>c\<in>set (snd (await_fetch_image env d)). same_answer env env' c"
  shows "await_fetch_image env' d = await_fetch_image env d"
proof -
  from assms have "fetch_image env d = fetch_image env' d" by simp
  then show ?thesis by (simp add: await_fetch_image_def)
qed

lemma query_vectors_agree:
  assumes "\<forall>c\<in>set (snd (query_vectors env overrides qt)). same_answer env env' c"
  shows "query_vectors env' overrides qt = query_vectors env overrides qt"
proof (cases "use_vector_search overrides")
  case True
  with assms have "\<forall>c\<in>set (snd (bind (await_text_embedding env qt) (\<lambda>vector. return [vector]))).
                     same_answer env env' c"
    by (simp add: query_vectors_def)
  then have "bind (await_text_embedding env' qt) (\<lambda>vector. return [vector])
               = bind (await_text_embedding env qt) (\<lambda>vector. return [vector])"
    by (rule bind_agree) (simp_all add: await_text_embedding_agree [of env qt env'])
  with True show ?thesis by (simp add: query_vectors_def)
next
  case False
  then show ?thesis by (simp add: query_vectors_def)
qed

lemma compute_embeddings_agree:
  "\<forall>c\<in>set (snd (compute_embeddings env qt fs)). same_answer env env' c \<Longrightarrow>
     compute_embeddings env' qt fs = compute_embeddings env qt fs"
proof (induction fs)
  case Nil
  show ?case by simp
next
  case (Cons f fs)
  have first: "(if f = PStr ''embedding'' then await_text_embedding env' qt
                else await_image_embedding env' qt)
             = (if f = PStr ''embedding'' then await_text_embedding env qt
                else await_image_embedding env qt)"
    if "\<forall>c\<in>set (snd (if f = PStr ''embedding'' then await_text_embedding env qt
                          else await_image_embedding env qt)). same_answer env env' c"
    using that
    by (cases "f = PStr ''embedding''")
       (simp_all add: await_text_embedding_agree [of env qt env']
                      await_image_embedding_agree [of env qt env']
                 del: await_text_embedding_trace await_image_embedding_trace)
  have rest: "bind (compute_embeddings env' qt fs) (\<lambda>vectors. return (vector # vectors))
            = bind (compute_embeddings env qt fs) (\<lambda>vectors. return (vector # vectors))"
    if "\<forall>c\<in>set (snd (bind (compute_embeddings env qt fs) (\<lambda>vectors. return (vector # vectors)))).
          same_answer env env' c" for vector
    using that by (rule bind_agree) (simp_all add: Cons.IH)
  from Cons.prems show ?case
    unfolding compute_embeddings.simps
    by (rule bind_agree) (simp_all only: first rest)
qed

lemma vision_query_vectors_agree:
  assumes "\<forall>c\<in>set (snd (vision_query_vectors env overrides qt)). same_answer env env' c"
  shows "vision_query_vectors env' overrides qt = vision_query_vectors env overrides qt"
proof (cases "use_vector_search overrides")
  case True
  with assms have
    "\<forall>c\<in>set (snd (bind (iterate (dict_get_default overrides ''vector_fields''
                                   (PList [PStr ''embedding''])))
                       (compute_embeddings env qt))). same_answer env env' c"
    by (simp add: vision_query_vectors_def)
  then have "bind (iterate (dict_get_default overrides ''vector_fields'' (PList [PStr ''embedding''])))
                 (compute_embeddings env' qt)
           = bind (iterate (dict_get_default overrides ''vector_fields'' (PList [PStr ''embedding''])))
                 (compute_embeddings env qt)"
    by (rule bind_agree) (simp_all add: compute_embeddings_agree [of env qt _ env'])
  with True show ?thesis by (simp add: vision_query_vectors_def)
next
  case False
  then show ?thesis by (simp add: vision_query_vectors_def)
qed

lemma fetch_images_agree:
  "\<forall>c\<in>set (snd (fetch_images env rs)). same_answer env env' c \<Longrightarrow>
     fetch_images env' rs = fetch_images env rs"
proof (induction rs)
  case Nil
  show ?case by simp
next
  case (Cons r rs)
  have rest: "bind (fetch_images env' rs)
                (\<lambda>image_list. return (case url of None \<Rightarrow> image_list
                   | Some u \<Rightarrow> if u \<noteq> [] then u # image_list else image_list))
            = bind (fetch_images env rs)
                (\<lambda>image_list. return (case url of None \<Rightarrow> image_list
                   | Some u \<Rightarrow> if u \<noteq> [] then u # image_list else image_list))"
    if "\<forall>c\<in>set (snd (bind (fetch_images env rs)
                (\<lambda>image_list. return (case url of None \<Rightarrow> image_list
                   | Some u \<Rightarrow> if u \<noteq> [] then u # image_list else image_list)))).
          same_answer env env' c" for url
    using that by (rule bind_agree) (simp_all add: Cons.IH)
  from Cons.prems show ?case
    unfolding fetch_images.simps
    by (rule bind_agree) (simp_all only: await_fetch_image_agree [of env r env'] rest)
qed

lemma vision_images_agree:
  "\<forall>c\<in>set (snd (vision_images env overrides rs)). same_answer env env' c \<Longrightarrow>
     vision_images env' overrides rs = vision_images env overrides rs"
  by (simp add: vision_images_def fetch_images_agree [of env rs env'])

lemma same_methods_parts:
  assumes "same_methods env env'"
  shows "search_arguments env' overrides auth_claims qt vectors
           = search_arguments env overrides auth_claims qt vectors"
    and "answer_prompt self env' messages overrides content'
           = answer_prompt self env messages overrides content'"
    and "vision_answer_prompt vself env' messages overrides parts
           = vision_answer_prompt vself env messages overrides parts"
    and "sources_of env' overrides cite results = sources_of env overrides cite results"
    and "search_step env' overrides auth_claims qt = search_step env overrides auth_claims qt"
    and "vision_search_step env' overrides auth_claims qt
           = vision_search_step env overrides auth_claims qt"
    and "results_step env' results = results_step env results"
    and "vision_user_content env' overrides q results image_list
           = vision_user_content env overrides q results image_list"
    and "get_search_query env' = get_search_query env"
  using assms
  by (simp_all add: same_methods_def search_arguments_def answer_prompt_def
        vision_answer_prompt_def sources_of_def get_sources_content_def search_step_def
        vision_search_step_def results_step_def vision_user_content_def system_message_def)

lemma answer_step_similar:
  assumes "same_methods env env'"
    and "\<forall>c\<in>set (snd (answer_step self env messages overrides auth_claims should_stream q qm qt
                          results)). same_answer env env' c"
  shows "same_metadata
           (answer_step self env' messages overrides auth_claims should_stream' q qm qt results)
           (answer_step self env messages overrides auth_claims should_stream q qm qt results)"
proof -
  from assms(2) have b: "build_messages env'
           (answer_prompt self env messages overrides
              (if results = [] then q else q @ sources_block (sources_of env overrides False results)))
         = build_messages env
           (answer_prompt self env messages overrides
              (if results = [] then q else q @ sources_block (sources_of env overrides False results)))"
    by (simp add: answer_step_trace)
  show ?thesis
    using b
    by (cases "results = []")
       (simp_all add: answer_step_no_sources answer_step_grounded same_methods_parts [OF assms(1)]
          same_metadata_def result_error_def result_data_points_def result_thoughts_def
          split: sum.splits)
qed

lemma vision_answer_step_similar:
  assumes "same_methods env env'"
    and "\<forall>c\<in>set (snd (vision_answer_step self env messages overrides auth_claims should_stream q
                          qm qt results image_list)). same_answer env env' c"
  shows "same_metadata
           (vision_answer_step self env' messages overrides auth_claims should_stream' q qm qt
              results image_list)
           (vision_answer_step self env messages overrides auth_claims should_stream q qm qt
              results image_list)"
proof -
  from assms(2) have b: "build_messages env'
           (vision_answer_prompt self env messages overrides
              (vision_user_content env overrides q results image_list))
         = build_messages env
           (vision_answer_prompt self env messages overrides
              (vision_user_content env overrides q results image_list))"
    by (simp add: vision_answer_step_trace)
  show ?thesis
    using b
    by (simp add: vision_answer_step_eq same_methods_parts [OF assms(1)]
          same_metadata_def result_error_def result_data_points_def result_thoughts_def
          split: sum.splits)
qed

lemma text_runs_similar:
  assumes "same_methods env env'"
    and "\<forall>c\<in>set (snd (run_until_final_call self env messages overrides auth_claims should_stream)).
           same_answer env env' c"
  shows "same_metadata
           (run_until_final_call self env' messages overrides auth_claims should_stream')
           (run_until_final_call self env messages overrides auth_claims should_stream)"
  using assms(2) unfolding run_text_parts same_methods_parts [OF assms(1)]
  apply -
  apply (erule bind_similar, erule call_build_filter_agree)
  apply (erule bind_similar, rule refl)
  apply (erule bind_similar, erule call_build_messages_agree)
  apply (erule bind_similar, erule await_chat_completion_agree)
  apply (erule bind_similar, erule query_vectors_agree)
  apply (erule bind_similar, erule await_search_agree)
  apply (erule answer_step_similar [OF assms(1)])
  done

lemma vision_runs_similar:
  assumes "same_methods env env'"
    and "\<forall>c\<in>set (snd (run_until_final_call_vision self env messages overrides auth_claims should_stream)).
           same_answer env env' c"
  shows "same_metadata
           (run_until_final_call_vision self env' messages overrides auth_claims should_stream')
           (run_until_final_call_vision self env messages overrides auth_claims should_stream)"
  using assms(2) unfolding run_vision_parts same_methods_parts [OF assms(1)]
  apply -
  apply (erule bind_similar, erule call_build_filter_agree)
  apply (erule bind_similar, rule refl)
  apply (erule bind_similar, erule call_build_messages_agree)
  apply (erule bind_similar, erule await_chat_completion_agree)
  apply (erule bind_similar, erule vision_query_vectors_agree)
  apply (erule bind_similar, erule await_search_agree)
  apply (erule bind_similar, erule vision_images_agree)
  apply (erule vision_answer_step_similar [OF assms(1)])
  done

subsection \<open>Evaluating the concrete setting\<close>

lemmas example_defs = example_approach_def example_vision_approach_def example_env_def
  example_messages_def example_documents_def known_models_def

lemmas eval_simps = fst_bind snd_bind last_message_content_def await_chat_completion_value
  await_search_value query_vectors_value query_vectors_trace answer_step_no_sources
  answer_step_grounded vision_answer_step_eq vision_query_vectors_def vision_images_def
  await_text_embedding_def await_image_embedding_def await_fetch_image_def await_def
  return_def raise_def use_vector_search_def use_text_search_def send_text_to_gptvision_def
  send_images_to_gptvision_def dict_get_def dict_get_default_def
  result_data_points_def result_thoughts_def result_is_tuple_def result_error_def
  query_prompt_def vision_query_prompt_def answer_prompt_def vision_answer_prompt_def

subsection \<open>The query completion is in the trace\<close>

lemma text_query_completion_in_trace:
  "messages \<noteq> [] \<Longrightarrow> content (last messages) = Some (Str q) \<Longrightarrow>
   build_messages env (query_prompt self messages q) = Inr qm \<Longrightarrow>
   ChatCompletion (query_completion self overrides qm)
     \<in> set (snd (run_until_final_call self env messages overrides auth_claims should_stream))"
  by (simp add: text_trace [OF last_message_content_Inr [THEN iffD2]])

lemma vision_query_completion_in_trace:
  "messages \<noteq> [] \<Longrightarrow> content (last messages) = Some (Str q) \<Longrightarrow>
   build_messages env (vision_query_prompt self messages q) = Inr qm \<Longrightarrow>
   ChatCompletion (vision_query_completion self overrides qm)
     \<in> set (snd (run_until_final_call_vision self env messages overrides auth_claims should_stream))"
  by (simp add: vision_trace [OF last_message_content_Inr [THEN iffD2]])

section \<open>The claims\<close>

text \<open>
  C1 (as amended).  In the text variant, when the search was called and answered with no
  result, the last prompt built is made of the system prompt, the history
  \<open>messages[:-1]\<close> and the original question alone; the run returns
  \<open>data_points = {}\<close> and \<open>thoughts = []\<close>, with the pending completion on the messages
  of that prompt (should the prompt builder raise there, the run raises the same).  The
  vision variant has no such branch: with no result it returns
  \<open>data_points = {text: [], images: []}\<close> and the four thought steps.
\<close>

theorem no_sources_text:
  "(Search a \<in> set (snd (run_until_final_call self env messages overrides auth_claims should_stream))
      \<and> search env a = Inr []
    \<longrightarrow> (\<exists>q. content (last messages) = Some (Str q)
           \<and> last (snd (run_until_final_call self env messages overrides auth_claims should_stream))
               = BuildMessages
                   \<lparr>bm_model = chatgpt_model self,
                    bm_system_prompt = system_message env self overrides,
                    bm_tools = None,
                    bm_few_shots = [],
                    bm_past_messages = butlast messages,
                    bm_new_user_content = Str q,
                    bm_max_tokens = chatgpt_token_limit self - 1024,
                    bm_fallback_to_default = ALLOW_NON_GPT_MODELS self\<rparr>
           \<and> (case build_messages env
                       \<lparr>bm_model = chatgpt_model self,
                        bm_system_prompt = system_message env self overrides,
                        bm_tools = None,
                        bm_few_shots = [],
                        bm_past_messages = butlast messages,
                        bm_new_user_content = Str q,
                        bm_max_tokens = chatgpt_token_limit self - 1024,
                        bm_fallback_to_default = ALLOW_NON_GPT_MODELS self\<rparr> of
                 Inl e \<Rightarrow>
                   fst (run_until_final_call self env messages overrides auth_claims should_stream)
                     = Inl e
               | Inr messages' \<Rightarrow>
                   (\<exists>r. fst (run_until_final_call self env messages overrides auth_claims
                               should_stream) = Inr r
                      \<and> returned_data_points r = empty_data_points
                      \<and> returned_thoughts r = []
                      \<and> cc_messages (chat_coroutine r) = messages'))))
   \<and> (Search a \<in> set (snd (run_until_final_call_vision vself env messages overrides auth_claims should_stream))
      \<and> search env a = Inr []
    \<longrightarrow> (\<exists>args. last (snd (run_until_final_call_vision vself env messages overrides auth_claims
                              should_stream)) = BuildMessages args
           \<and> (case build_messages env args of
                 Inl e \<Rightarrow>
                   fst (run_until_final_call_vision vself env messages overrides auth_claims
                          should_stream) = Inl e
               | Inr messages' \<Rightarrow>
                   (\<exists>r. fst (run_until_final_call_vision vself env messages overrides auth_claims
                               should_stream) = Inr r
                      \<and> returned_data_points r = \<lparr>dp_text = Some [], dp_images = Some []\<rparr>
                      \<and> length (returned_thoughts r) = 4))))"
proof (rule conjI; rule impI)
  assume "Search a \<in> set (snd (run_until_final_call self env messages overrides auth_claims should_stream))
      \<and> search env a = Inr []"
  then have reach: "Search a \<in> set (snd (run_until_final_call self env messages overrides auth_claims should_stream))"
    and none: "search env a = Inr []" by simp_all
  from text_reaches_search [OF reach] obtain q qm c vectors where
    h: "messages \<noteq> []" "content (last messages) = Some (Str q)"
       "build_messages env (query_prompt self messages q) = Inr qm"
       "chat_completions_create env (query_completion self overrides qm) = Inr c"
       "fst (query_vectors env overrides (get_search_query env c q)) = Inr vectors"
       "a = search_arguments env overrides auth_claims (get_search_query env c q) vectors"
    by blast
  have s: "search env (search_arguments env overrides auth_claims (get_search_query env c q) vectors) = Inr []"
    using none h(6) by simp
  note run = text_after_search [OF h(1-5) s, of should_stream]
  show "\<exists>q. content (last messages) = Some (Str q)
           \<and> last (snd (run_until_final_call self env messages overrides auth_claims should_stream))
               = BuildMessages
                   \<lparr>bm_model = chatgpt_model self,
                    bm_system_prompt = system_message env self overrides,
                    bm_tools = None,
                    bm_few_shots = [],
                    bm_past_messages = butlast messages,
                    bm_new_user_content = Str q,
                    bm_max_tokens = chatgpt_token_limit self - 1024,
                    bm_fallback_to_default = ALLOW_NON_GPT_MODELS self\<rparr>
           \<and> (case build_messages env
                       \<lparr>bm_model = chatgpt_model self,
                        bm_system_prompt = system_message env self overrides,
                        bm_tools = None,
                        bm_few_shots = [],
                        bm_past_messages = butlast messages,
                        bm_new_user_content = Str q,
                        bm_max_tokens = chatgpt_token_limit self - 1024,
                        bm_fallback_to_default = ALLOW_NON_GPT_MODELS self\<rparr> of
                 Inl e \<Rightarrow>
                   fst (run_until_final_call self env messages overrides auth_claims should_stream)
                     = Inl e
               | Inr messages' \<Rightarrow>
                   (\<exists>r. fst (run_until_final_call self env messages overrides auth_claims
                               should_stream) = Inr r
                      \<and> returned_data_points r = empty_data_points
                      \<and> returned_thoughts r = []
                      \<and> cc_messages (chat_coroutine r) = messages'))"
    apply (rule exI [of _ q])
    apply (simp add: run h(2) answer_step_no_sources answer_prompt_def answer_completion_def
                split: sum.splits)
    done
next
  assume "Search a \<in> set (snd (run_until_final_call_vision vself env messages overrides auth_claims should_stream))
      \<and> search env a = Inr []"
  then have reach: "Search a \<in> set (snd (run_until_final_call_vision vself env messages overrides auth_claims should_stream))"
    and none: "search env a = Inr []" by simp_all
  from vision_reaches_search [OF reach] obtain q qm c vectors where
    h: "messages \<noteq> []" "content (last messages) = Some (Str q)"
       "build_messages env (vision_query_prompt vself messages q) = Inr qm"
       "chat_completions_create env (vision_query_completion vself overrides qm) = Inr c"
       "fst (vision_query_vectors env overrides (get_search_query env c q)) = Inr vectors"
       "a = search_arguments env overrides auth_claims (get_search_query env c q) vectors"
    by blast
  have s: "search env (search_arguments env overrides auth_claims (get_search_query env c q) vectors) = Inr []"
    using none h(6) by simp
  have i: "fst (vision_images env overrides []) = Inr []"
    by (simp add: vision_images_def return_def)
  note run = vision_after_search [OF h(1-5) s i, of should_stream]
  show "\<exists>args. last (snd (run_until_final_call_vision vself env messages overrides auth_claims
                              should_stream)) = BuildMessages args
           \<and> (case build_messages env args of
                 Inl e \<Rightarrow>
                   fst (run_until_final_call_vision vself env messages overrides auth_claims
                          should_stream) = Inl e
               | Inr messages' \<Rightarrow>
                   (\<exists>r. fst (run_until_final_call_vision vself env messages overrides auth_claims
                               should_stream) = Inr r
                      \<and> returned_data_points r = \<lparr>dp_text = Some [], dp_images = Some []\<rparr>
                      \<and> length (returned_thoughts r) = 4))"
    apply (rule exI [of _ "vision_answer_prompt vself env messages overrides
                             (vision_user_content env overrides q [] [])"])
    apply (simp add: run vision_answer_step_eq sources_of_def get_sources_content_def
                split: sum.splits)
    done
qed

theorem no_sources_text_witness:
  "Search (search_arguments (example_env []) Map.empty Map.empty ''return policy''
             [''text embedding of return policy''])
     \<in> set (snd (run_until_final_call example_approach (example_env []) example_messages
                    Map.empty Map.empty False))
   \<and> search (example_env []) (search_arguments (example_env []) Map.empty Map.empty ''return policy''
                                 [''text embedding of return policy''])
       = Inr []
   \<and> result_data_points (run_until_final_call example_approach (example_env []) example_messages
                            Map.empty Map.empty False) = Some empty_data_points
   \<and> result_thoughts (run_until_final_call example_approach (example_env []) example_messages
                         Map.empty Map.empty False) = Some []
   \<and> final_user_content (snd (run_until_final_call example_approach (example_env []) example_messages
                         Map.empty Map.empty False)) = Some (Str ''What is the return policy?'')"
proof -
  have hyp: "Search (search_arguments (example_env []) Map.empty Map.empty ''return policy''
             [''text embedding of return policy''])
     \<in> set (snd (run_until_final_call example_approach (example_env []) example_messages
                    Map.empty Map.empty False))
   \<and> search (example_env []) (search_arguments (example_env []) Map.empty Map.empty ''return policy''
                                 [''text embedding of return policy''])
       = Inr []"
    unfolding run_text_parts by (simp add: eval_simps example_defs)
  have rest: "result_data_points (run_until_final_call example_approach (example_env []) example_messages
                            Map.empty Map.empty False) = Some empty_data_points
   \<and> result_thoughts (run_until_final_call example_approach (example_env []) example_messages
                         Map.empty Map.empty False) = Some []
   \<and> final_user_content (snd (run_until_final_call example_approach (example_env []) example_messages
                         Map.empty Map.empty False)) = Some (Str ''What is the return policy?'')"
    unfolding run_text_parts by (simp add: eval_simps example_defs)
  from no_sources_text [THEN conjunct1, rule_format, OF hyp]
  show ?thesis using hyp rest by simp
qed

text \<open>
  C1 as stated covers both variants.  In the vision variant, with a search that answers
  with no result, \<open>data_points\<close> is not \<open>{}\<close>, there are four thought steps, and the
  user content of the final prompt carries a second text part, the (empty) sources
  block.
\<close>

theorem no_sources_vision_counterexample:
  "Search (search_arguments (example_env []) Map.empty Map.empty ''return policy''
             [''text embedding of return policy''])
     \<in> set (snd (run_until_final_call_vision example_vision_approach (example_env [])
                    example_messages Map.empty Map.empty False))
   \<and> search (example_env []) (search_arguments (example_env []) Map.empty Map.empty ''return policy''
                                 [''text embedding of return policy''])
       = Inr []
   \<and> result_data_points (run_until_final_call_vision example_vision_approach (example_env [])
                            example_messages Map.empty Map.empty False)
       = Some \<lparr>dp_text = Some [], dp_images = Some []\<rparr>
   \<and> result_data_points (run_until_final_call_vision example_vision_approach (example_env [])
                            example_messages Map.empty Map.empty False)
       \<noteq> Some empty_data_points
   \<and> map_option (map ts_title)
        (result_thoughts (run_until_final_call_vision example_vision_approach (example_env [])
                            example_messages Map.empty Map.empty False))
       = Some [''Prompt to generate search query'', ''Search using generated search query'',
               ''Search results'', ''Prompt to generate answer'']
   \<and> final_user_content (snd (run_until_final_call_vision example_vision_approach (example_env [])
                                 example_messages Map.empty Map.empty False))
       = Some (Parts [TextPart ''What is the return policy?'',
                      TextPart ([CHR 0x0A, CHR 0x0A] @ ''Sources:'' @ [CHR 0x0A])])"
  unfolding run_vision_parts
  by (simp add: eval_simps example_defs empty_data_points_def sources_of_def
        get_sources_content_def prompt_step_def results_step_def vision_search_step_def
        vision_user_content_def sources_block_def)

text \<open>
  C2.  The claim has every path return the pair of the metadata and the pending
  completion.  The text variant's branch for no sources returns one dictionary with the
  three keys \<open>data_points\<close>, \<open>thoughts\<close> and \<open>chat_coroutine\<close> instead: here the search
  answers with no document, and the returned object is not a tuple.
\<close>

theorem no_sources_returns_dict:
  "result_is_tuple (run_until_final_call example_approach (example_env []) example_messages
                      Map.empty Map.empty False) = Some False"
  unfolding run_text_parts
  by (simp add: eval_simps example_defs)

text \<open>
  C3 (as amended).  When the last message has a content that is not a plain string, the
  run raises \<open>ValueError("The most recent message content must be a string.")\<close>, in both
  variants, and the only call made before it is \<open>build_filter\<close>: no prompt is built and
  nothing is awaited on the model, the embedding, the search or the image store.
  Conversely, a run that raises a \<open>ValueError\<close> with no call made beyond \<open>build_filter\<close>
  has a last message whose content is not a plain string.
\<close>

theorem input_error_before_any_call:
  "(((\<exists>m. fst (run_until_final_call self env messages overrides auth_claims should_stream)
             = Inl (ValueError m))
       \<and> snd (run_until_final_call self env messages overrides auth_claims should_stream)
           = [BuildFilter overrides auth_claims])
      \<longleftrightarrow> messages \<noteq> [] \<and> (\<exists>c. content (last messages) = Some c \<and> (\<forall>s. c \<noteq> Str s)))
   \<and> (((\<exists>m. fst (run_until_final_call_vision vself env messages overrides auth_claims should_stream)
             = Inl (ValueError m))
       \<and> snd (run_until_final_call_vision vself env messages overrides auth_claims should_stream)
           = [BuildFilter overrides auth_claims])
      \<longleftrightarrow> messages \<noteq> [] \<and> (\<exists>c. content (last messages) = Some c \<and> (\<forall>s. c \<noteq> Str s)))
   \<and> (messages \<noteq> [] \<and> (\<exists>c. content (last messages) = Some c \<and> (\<forall>s. c \<noteq> Str s))
      \<longrightarrow> run_until_final_call self env messages overrides auth_claims should_stream
            = (Inl (ValueError ''The most recent message content must be a string.''),
               [BuildFilter overrides auth_claims])
        \<and> run_until_final_call_vision vself env messages overrides auth_claims should_stream
            = (Inl (ValueError ''The most recent message content must be a string.''),
               [BuildFilter overrides auth_claims]))"
proof (cases messages rule: last_message_content_cases)
  case (invalid e)
  have "(\<exists>m. e = ValueError m)
          \<longleftrightarrow> messages \<noteq> [] \<and> (\<exists>c. content (last messages) = Some c \<and> (\<forall>s. c \<noteq> Str s))"
    using last_message_content_value_error [of messages] invalid by simp
  moreover have "e = ValueError ''The most recent message content must be a string.''"
    if "messages \<noteq> [] \<and> (\<exists>c. content (last messages) = Some c \<and> (\<forall>s. c \<noteq> Str s))"
    using that invalid last_message_content_not_string [of messages] by auto
  ultimately show ?thesis
    by (simp add: text_invalid [OF invalid] vision_invalid [OF invalid])
next
  case (valid q)
  then have "\<not> (messages \<noteq> [] \<and> (\<exists>c. content (last messages) = Some c \<and> (\<forall>s. c \<noteq> Str s)))"
    by (auto simp: last_message_content_Inr)
  then show ?thesis
    by (simp add: text_trace [OF valid] vision_trace [OF valid]) blast
qed

theorem input_error_before_any_call_witness:
  "[\<lparr>role = ''user'', content = Some (Parts [TextPart ''What is this?'', ImageUrlPart ''https://blob/x.png''])\<rparr>]
     \<noteq> []
   \<and> content (last [\<lparr>role = ''user'', content = Some (Parts [TextPart ''What is this?'', ImageUrlPart ''https://blob/x.png''])\<rparr>])
       = Some (Parts [TextPart ''What is this?'', ImageUrlPart ''https://blob/x.png''])
   \<and> run_until_final_call example_approach (example_env example_documents)
        [\<lparr>role = ''user'', content = Some (Parts [TextPart ''What is this?'', ImageUrlPart ''https://blob/x.png''])\<rparr>]
        Map.empty Map.empty False
       = (Inl (ValueError ''The most recent message content must be a string.''),
          [BuildFilter Map.empty Map.empty])
   \<and> run_until_final_call_vision example_vision_approach (example_env example_documents)
        [\<lparr>role = ''user'', content = Some (Parts [TextPart ''What is this?'', ImageUrlPart ''https://blob/x.png''])\<rparr>]
        Map.empty Map.empty False
       = (Inl (ValueError ''The most recent message content must be a string.''),
          [BuildFilter Map.empty Map.empty])"
  using input_error_before_any_call
          [where self = example_approach and vself = example_vision_approach
             and env = "example_env example_documents"
             and messages = "[\<lparr>role = ''user'', content = Some (Parts [TextPart ''What is this?'', ImageUrlPart ''https://blob/x.png''])\<rparr>]"
             and overrides = Map.empty and auth_claims = Map.empty and should_stream = False]
  by simp

text \<open>
  C3 as stated fails in both directions.  In the vision variant the query prompt is built
  for \<open>chatgpt_model\<close> without \<open>fallback_to_default\<close>, and \<open>__init__\<close> checks only
  \<open>gpt4v_model\<close>: with a chat model the prompt builder has no tokenizer for, a request
  whose last content is a plain string raises \<open>ValueError\<close>, after the prompt builder was
  called.  And a request without a last content raises another exception: \<open>IndexError\<close>
  for an empty list, \<open>KeyError\<close> for a last message without the key.
\<close>

theorem input_error_counterexample:
  "last_message_content example_messages = Inr ''What is the return policy?''
   \<and> run_until_final_call_vision (example_vision_approach\<lparr>chatgpt_model := ''llama3''\<rparr>)
        (example_env example_documents) example_messages Map.empty Map.empty False
       = (Inl (ValueError ''Expected valid OpenAI GPT model name''),
          [BuildFilter Map.empty Map.empty,
           BuildMessages (vision_query_prompt (example_vision_approach\<lparr>chatgpt_model := ''llama3''\<rparr>)
                            example_messages ''What is the return policy?'')])
   \<and> run_until_final_call example_approach (example_env example_documents) []
        Map.empty Map.empty False
       = (Inl IndexError, [BuildFilter Map.empty Map.empty])
   \<and> run_until_final_call example_approach (example_env example_documents)
        [\<lparr>role = ''assistant'', content = None\<rparr>] Map.empty Map.empty False
       = (Inl (KeyError ''content''), [BuildFilter Map.empty Map.empty])"
proof -
  have q: "last_message_content example_messages = Inr ''What is the return policy?''"
    by (simp add: last_message_content_def example_messages_def)
  have v: "run_until_final_call_vision (example_vision_approach\<lparr>chatgpt_model := ''llama3''\<rparr>)
        (example_env example_documents) example_messages Map.empty Map.empty False
       = (Inl (ValueError ''Expected valid OpenAI GPT model name''),
          [BuildFilter Map.empty Map.empty,
           BuildMessages (vision_query_prompt (example_vision_approach\<lparr>chatgpt_model := ''llama3''\<rparr>)
                            example_messages ''What is the return policy?'')])"
    unfolding run_vision_parts
    by (rule prod_eqI)
       (simp_all add: fst_bind snd_bind q vision_query_prompt_def example_env_def
          known_models_def example_vision_approach_def)
  have e: "last_message_content [] = Inl IndexError"
    "last_message_content [\<lparr>role = ''assistant'', content = None\<rparr>] = Inl (KeyError ''content'')"
    by (simp_all add: last_message_content_def)
  show ?thesis
    using q v by (simp add: text_invalid e)
qed

text \<open>
  C4.  On the grounded path (the search was called and answered with at least one
  result), in both variants, a run that returns has exactly four thought steps, in the
  order: the prompt that generated the query (the messages sent to the model in the
  query step), the search (its content is the query text passed to the search), the
  results (the retrieved documents, serialized, in order), and the prompt that generates
  the answer (the messages of the pending completion).  In the text variant such a run
  returns whenever the prompt builder answers for the final prompt, and raises what the
  prompt builder raised otherwise.
\<close>

theorem thoughts_grounded:
  "(Search a \<in> set (snd (run_until_final_call self env messages overrides auth_claims should_stream))
      \<and> search env a = Inr results \<and> results \<noteq> []
    \<longrightarrow> (\<exists>args. last (snd (run_until_final_call self env messages overrides auth_claims
                              should_stream)) = BuildMessages args
           \<and> (case build_messages env args of
                 Inl e \<Rightarrow>
                   fst (run_until_final_call self env messages overrides auth_claims should_stream)
                     = Inl e
               | Inr messages' \<Rightarrow>
                   (\<exists>r qc.
                      fst (run_until_final_call self env messages overrides auth_claims
                             should_stream) = Inr r
                      \<and> ChatCompletion qc
                          \<in> set (snd (run_until_final_call self env messages overrides auth_claims
                                         should_stream))
                      \<and> map ts_title (returned_thoughts r)
                          = [''Prompt to generate search query'',
                             ''Search using generated search query'',
                             ''Search results'', ''Prompt to generate answer'']
                      \<and> map ts_content (returned_thoughts r)
                          = [Messages (cc_messages qc), Text (sa_query_text a),
                             Results (map (serialize_for_results env) results),
                             Messages (cc_messages (chat_coroutine r))]))))
   \<and> (Search a \<in> set (snd (run_until_final_call_vision vself env messages overrides auth_claims should_stream))
      \<and> search env a = Inr results \<and> results \<noteq> []
      \<and> fst (run_until_final_call_vision vself env messages overrides auth_claims should_stream) = Inr r'
    \<longrightarrow> (\<exists>qc. ChatCompletion qc
               \<in> set (snd (run_until_final_call_vision vself env messages overrides auth_claims should_stream))
           \<and> map ts_title (returned_thoughts r')
               = [''Prompt to generate search query'', ''Search using generated search query'',
                  ''Search results'', ''Prompt to generate answer'']
           \<and> map ts_content (returned_thoughts r')
               = [Messages (cc_messages qc), Text (sa_query_text a),
                  Results (map (serialize_for_results env) results),
                  Messages (cc_messages (chat_coroutine r'))]))"
proof (rule conjI; rule impI)
  assume "Search a \<in> set (snd (run_until_final_call self env messages overrides auth_claims should_stream))
      \<and> search env a = Inr results \<and> results \<noteq> []"
  then have reach: "Search a \<in> set (snd (run_until_final_call self env messages overrides auth_claims should_stream))"
    and found: "search env a = Inr results" and ne: "results \<noteq> []" by simp_all
  from text_reaches_search [OF reach] obtain q qm c vectors where
    h: "messages \<noteq> []" "content (last messages) = Some (Str q)"
       "build_messages env (query_prompt self messages q) = Inr qm"
       "chat_completions_create env (query_completion self overrides qm) = Inr c"
       "fst (query_vectors env overrides (get_search_query env c q)) = Inr vectors"
       "a = search_arguments env overrides auth_claims (get_search_query env c q) vectors"
    by blast
  have s: "search env (search_arguments env overrides auth_claims (get_search_query env c q) vectors)
             = Inr results"
    using found h(6) by simp
  note run = text_after_search [OF h(1-5) s, of should_stream]
  note qc = text_query_completion_in_trace [OF h(1-3), of overrides auth_claims should_stream]
  show "\<exists>args. last (snd (run_until_final_call self env messages overrides auth_claims
                              should_stream)) = BuildMessages args
           \<and> (case build_messages env args of
                 Inl e \<Rightarrow>
                   fst (run_until_final_call self env messages overrides auth_claims should_stream)
                     = Inl e
               | Inr messages' \<Rightarrow>
                   (\<exists>r qc.
                      fst (run_until_final_call self env messages overrides auth_claims
                             should_stream) = Inr r
                      \<and> ChatCompletion qc
                          \<in> set (snd (run_until_final_call self env messages overrides auth_claims
                                         should_stream))
                      \<and> map ts_title (returned_thoughts r)
                          = [''Prompt to generate search query'',
                             ''Search using generated search query'',
                             ''Search results'', ''Prompt to generate answer'']
                      \<and> map ts_content (returned_thoughts r)
                          = [Messages (cc_messages qc), Text (sa_query_text a),
                             Results (map (serialize_for_results env) results),
                             Messages (cc_messages (chat_coroutine r))]))"
  proof (intro exI conjI)
    show "last (snd (run_until_final_call self env messages overrides auth_claims should_stream))
            = BuildMessages (answer_prompt self env messages overrides
                               (q @ sources_block (sources_of env overrides False results)))"
      by (simp add: run answer_step_grounded [OF ne])
    show "case build_messages env (answer_prompt self env messages overrides
                               (q @ sources_block (sources_of env overrides False results))) of
                 Inl e \<Rightarrow>
                   fst (run_until_final_call self env messages overrides auth_claims should_stream)
                     = Inl e
               | Inr messages' \<Rightarrow>
                   (\<exists>r qc.
                      fst (run_until_final_call self env messages overrides auth_claims
                             should_stream) = Inr r
                      \<and> ChatCompletion qc
                          \<in> set (snd (run_until_final_call self env messages overrides auth_claims
                                         should_stream))
                      \<and> map ts_title (returned_thoughts r)
                          = [''Prompt to generate search query'',
                             ''Search using generated search query'',
                             ''Search results'', ''Prompt to generate answer'']
                      \<and> map ts_content (returned_thoughts r)
                          = [Messages (cc_messages qc), Text (sa_query_text a),
                             Results (map (serialize_for_results env) results),
                             Messages (cc_messages (chat_coroutine r))])"
    proof (cases "build_messages env (answer_prompt self env messages overrides
                               (q @ sources_block (sources_of env overrides False results)))")
      case (Inl e)
      then show ?thesis
        by (simp add: run answer_step_grounded [OF ne])
    next
      case (Inr messages')
      have v: "fst (run_until_final_call self env messages overrides auth_claims should_stream)
               = fst (answer_step self env messages overrides auth_claims should_stream q qm
                        (get_search_query env c q) results)"
        by (simp add: run)
      show ?thesis
        apply (simp only: Inr sum.case v answer_step_grounded [OF ne] fst_conv)
        apply (intro exI conjI)
           apply (rule refl)
          apply (rule qc)
         apply (simp add: prompt_step_def search_step_def results_step_def)
        apply (simp add: prompt_step_def search_step_def results_step_def query_completion_def
                         answer_completion_def h(6) search_arguments_def)
        done
    qed
  qed
next
  assume "Search a \<in> set (snd (run_until_final_call_vision vself env messages overrides auth_claims should_stream))
      \<and> search env a = Inr results \<and> results \<noteq> []
      \<and> fst (run_until_final_call_vision vself env messages overrides auth_claims should_stream) = Inr r'"
  then have reach: "Search a \<in> set (snd (run_until_final_call_vision vself env messages overrides auth_claims should_stream))"
    and found: "search env a = Inr results"
    and ret: "fst (run_until_final_call_vision vself env messages overrides auth_claims should_stream) = Inr r'"
    by simp_all
  from vision_reaches_search [OF reach] obtain q qm c vectors where
    h: "messages \<noteq> []" "content (last messages) = Some (Str q)"
       "build_messages env (vision_query_prompt vself messages q) = Inr qm"
       "chat_completions_create env (vision_query_completion vself overrides qm) = Inr c"
       "fst (vision_query_vectors env overrides (get_search_query env c q)) = Inr vectors"
       "a = search_arguments env overrides auth_claims (get_search_query env c q) vectors"
    by blast
  have s: "search env (search_arguments env overrides auth_claims (get_search_query env c q) vectors)
             = Inr results"
    using found h(6) by simp
  from ret obtain image_list where
    r': "fst (vision_answer_step vself env messages overrides auth_claims should_stream q qm
                 (get_search_query env c q) results image_list) = Inr r'"
    unfolding vision_after_search_bind [OF h(1-5) s] by (auto split: sum.splits)
  show "\<exists>qc. ChatCompletion qc
               \<in> set (snd (run_until_final_call_vision vself env messages overrides auth_claims should_stream))
           \<and> map ts_title (returned_thoughts r')
               = [''Prompt to generate search query'', ''Search using generated search query'',
                  ''Search results'', ''Prompt to generate answer'']
           \<and> map ts_content (returned_thoughts r')
               = [Messages (cc_messages qc), Text (sa_query_text a),
                  Results (map (serialize_for_results env) results),
                  Messages (cc_messages (chat_coroutine r'))]"
    apply (intro exI conjI)
      apply (rule vision_query_completion_in_trace [OF h(1-3)])
    using r'
     apply (auto simp: vision_answer_step_eq prompt_step_def vision_search_step_def results_step_def
                      vision_query_completion_def vision_answer_completion_def h(6)
                      search_arguments_def split: sum.splits)
    done
qed


theorem thoughts_grounded_witness:
  "Search (search_arguments (example_env example_documents) Map.empty Map.empty ''return policy''
             [''text embedding of return policy''])
     \<in> set (snd (run_until_final_call example_approach (example_env example_documents)
                    example_messages Map.empty Map.empty False))
   \<and> Search (search_arguments (example_env example_documents) Map.empty Map.empty ''return policy''
             [''text embedding of return policy''])
     \<in> set (snd (run_until_final_call_vision example_vision_approach (example_env example_documents)
                    example_messages Map.empty Map.empty False))
   \<and> search (example_env example_documents)
        (search_arguments (example_env example_documents) Map.empty Map.empty ''return policy''
           [''text embedding of return policy'']) = Inr example_documents
   \<and> example_documents \<noteq> []
   \<and> map_option (map ts_title)
        (result_thoughts (run_until_final_call example_approach (example_env example_documents)
                            example_messages Map.empty Map.empty False))
       = Some [''Prompt to generate search query'', ''Search using generated search query'',
               ''Search results'', ''Prompt to generate answer'']
   \<and> map_option (map ts_title)
        (result_thoughts (run_until_final_call_vision example_vision_approach
                            (example_env example_documents) example_messages Map.empty Map.empty False))
       = Some [''Prompt to generate search query'', ''Search using generated search query'',
               ''Search results'', ''Prompt to generate answer'']"
proof -
  have hyp_text:
    "Search (search_arguments (example_env example_documents) Map.empty Map.empty ''return policy''
             [''text embedding of return policy''])
       \<in> set (snd (run_until_final_call example_approach (example_env example_documents)
                      example_messages Map.empty Map.empty False))
     \<and> search (example_env example_documents)
          (search_arguments (example_env example_documents) Map.empty Map.empty ''return policy''
             [''text embedding of return policy'']) = Inr example_documents
     \<and> example_documents \<noteq> []"
    unfolding run_text_parts by (simp add: eval_simps example_defs)
  obtain r where r:
    "fst (run_until_final_call example_approach (example_env example_documents)
            example_messages Map.empty Map.empty False) = Inr r"
    unfolding run_text_parts by (simp add: eval_simps example_defs)
  obtain r' where r':
    "fst (run_until_final_call_vision example_vision_approach (example_env example_documents)
            example_messages Map.empty Map.empty False) = Inr r'"
    unfolding run_vision_parts by (simp add: eval_simps example_defs)
  have hyp_vision:
    "Search (search_arguments (example_env example_documents) Map.empty Map.empty ''return policy''
             [''text embedding of return policy''])
       \<in> set (snd (run_until_final_call_vision example_vision_approach (example_env example_documents)
                      example_messages Map.empty Map.empty False))
     \<and> search (example_env example_documents)
          (search_arguments (example_env example_documents) Map.empty Map.empty ''return policy''
             [''text embedding of return policy'']) = Inr example_documents
     \<and> example_documents \<noteq> []
     \<and> fst (run_until_final_call_vision example_vision_approach (example_env example_documents)
            example_messages Map.empty Map.empty False) = Inr r'"
    using r' unfolding run_vision_parts by (simp add: eval_simps example_defs)
  from thoughts_grounded [THEN conjunct1, rule_format, OF hyp_text]
  obtain args where built:
    "case build_messages (example_env example_documents) args of
       Inl e \<Rightarrow>
         fst (run_until_final_call example_approach (example_env example_documents)
                example_messages Map.empty Map.empty False) = Inl e
     | Inr messages' \<Rightarrow>
         (\<exists>r qc.
            fst (run_until_final_call example_approach (example_env example_documents)
                   example_messages Map.empty Map.empty False) = Inr r
            \<and> ChatCompletion qc
                \<in> set (snd (run_until_final_call example_approach (example_env example_documents)
                               example_messages Map.empty Map.empty False))
            \<and> map ts_title (returned_thoughts r)
                = [''Prompt to generate search query'', ''Search using generated search query'',
                   ''Search results'', ''Prompt to generate answer'']
            \<and> map ts_content (returned_thoughts r)
                = [Messages (cc_messages qc),
                   Text (sa_query_text
                           (search_arguments (example_env example_documents) Map.empty Map.empty
                              ''return policy'' [''text embedding of return policy''])),
                   Results (map (serialize_for_results (example_env example_documents))
                              example_documents),
                   Messages (cc_messages (chat_coroutine r))])"
    by blast
  have t: "map_option (map ts_title)
        (result_thoughts (run_until_final_call example_approach (example_env example_documents)
                            example_messages Map.empty Map.empty False))
       = Some [''Prompt to generate search query'', ''Search using generated search query'',
               ''Search results'', ''Prompt to generate answer'']"
    using built r
    by (cases "build_messages (example_env example_documents) args")
       (auto simp: result_thoughts_def)
  from thoughts_grounded [THEN conjunct2, rule_format, OF hyp_vision]
  have v: "map_option (map ts_title)
        (result_thoughts (run_until_final_call_vision example_vision_approach
                            (example_env example_documents) example_messages Map.empty Map.empty False))
       = Some [''Prompt to generate search query'', ''Search using generated search query'',
               ''Search results'', ''Prompt to generate answer'']"
    using r' by (auto simp: result_thoughts_def)
  show ?thesis using hyp_text hyp_vision t v by simp
qed

text \<open>
  C5.  Text search is on exactly when \<open>retrieval_mode\<close> is \<open>"text"\<close>, \<open>"hybrid"\<close> or absent,
  and vector search exactly when it is \<open>"vectors"\<close>, \<open>"hybrid"\<close> or absent, where absent
  is what \<open>overrides.get\<close> reads as \<open>None\<close>: no such key, or the key holding \<open>None\<close>.  These
  are the flags the search is called with, in both variants.  In the text variant a run
  that reaches the search has computed exactly one embedding, of the query text, when
  vector search is on, and passes it as the only vector; it has computed none and passes
  no vector when vector search is off.  No run computes more than one embedding, or any
  when vector search is off.
\<close>

theorem retrieval_mode_flags:
  "(use_text_search overrides \<longleftrightarrow>
      overrides ''retrieval_mode'' \<in> {None, Some PNone, Some (PStr ''text''), Some (PStr ''hybrid'')})
   \<and> (use_vector_search overrides \<longleftrightarrow>
      overrides ''retrieval_mode'' \<in> {None, Some PNone, Some (PStr ''vectors''), Some (PStr ''hybrid'')})
   \<and> (Search a \<in> set (snd (run_until_final_call self env messages overrides auth_claims should_stream))
       \<or> Search a \<in> set (snd (run_until_final_call_vision vself env messages overrides auth_claims should_stream))
      \<longrightarrow> sa_use_text_search a = use_text_search overrides
        \<and> sa_use_vector_search a = use_vector_search overrides)
   \<and> (Search a \<in> set (snd (run_until_final_call self env messages overrides auth_claims should_stream))
      \<longrightarrow> filter is_embedding_call
            (snd (run_until_final_call self env messages overrides auth_claims should_stream))
          = (if use_vector_search overrides then [TextEmbedding (sa_query_text a)] else [])
        \<and> (if use_vector_search overrides
           then \<exists>v. compute_text_embedding env (sa_query_text a) = Inr v \<and> sa_vectors a = [v]
           else sa_vectors a = []))
   \<and> (\<not> use_vector_search overrides
      \<longrightarrow> filter is_embedding_call
            (snd (run_until_final_call self env messages overrides auth_claims should_stream)) = [])
   \<and> length (filter is_embedding_call
                (snd (run_until_final_call self env messages overrides auth_claims should_stream))) \<le> 1"
proof -
  have flags: "sa_use_text_search a = use_text_search overrides
        \<and> sa_use_vector_search a = use_vector_search overrides"
    if "Search a \<in> set (snd (run_until_final_call self env messages overrides auth_claims should_stream))
       \<or> Search a \<in> set (snd (run_until_final_call_vision vself env messages overrides auth_claims should_stream))"
    using that text_reaches_search [of a self env messages overrides auth_claims should_stream]
      vision_reaches_search [of a vself env messages overrides auth_claims should_stream]
    by (auto simp: search_arguments_def)
  have embed: "filter is_embedding_call
            (snd (run_until_final_call self env messages overrides auth_claims should_stream))
          = (if use_vector_search overrides then [TextEmbedding (sa_query_text a)] else [])
        \<and> (if use_vector_search overrides
           then \<exists>v. compute_text_embedding env (sa_query_text a) = Inr v \<and> sa_vectors a = [v]
           else sa_vectors a = [])"
    if reach: "Search a \<in> set (snd (run_until_final_call self env messages overrides auth_claims should_stream))"
  proof -
    from text_reaches_search [OF reach] obtain q qm c vectors where
      h: "messages \<noteq> []" "content (last messages) = Some (Str q)"
         "build_messages env (query_prompt self messages q) = Inr qm"
         "chat_completions_create env (query_completion self overrides qm) = Inr c"
         "fst (query_vectors env overrides (get_search_query env c q)) = Inr vectors"
         "a = search_arguments env overrides auth_claims (get_search_query env c q) vectors"
      by blast
    have q: "last_message_content messages = Inr q"
      using h(1,2) by (simp add: last_message_content_Inr)
    show ?thesis
      using h(5) by (auto simp: text_embedding_calls [OF q] h(3) h(4) h(6) search_arguments_def
                        query_vectors_value split: sum.splits if_splits)
  qed
  have off: "filter is_embedding_call
            (snd (run_until_final_call self env messages overrides auth_claims should_stream)) = []"
    if "\<not> use_vector_search overrides"
  proof (cases messages rule: last_message_content_cases)
    case (invalid e)
    then show ?thesis by (simp add: text_invalid)
  next
    case (valid q)
    show ?thesis using that by (simp add: text_embedding_calls [OF valid] split: sum.splits)
  qed
  have most: "length (filter is_embedding_call
                (snd (run_until_final_call self env messages overrides auth_claims should_stream))) \<le> 1"
  proof (cases messages rule: last_message_content_cases)
    case (invalid e)
    then show ?thesis by (simp add: text_invalid)
  next
    case (valid q)
    show ?thesis by (simp add: text_embedding_calls [OF valid] split: sum.splits)
  qed
  show ?thesis
    using flags embed off most retrieval_mode_text [of overrides] retrieval_mode_vector [of overrides]
    by blast
qed

theorem retrieval_mode_flags_witness:
  "Search (search_arguments (example_env example_documents) [''retrieval_mode'' \<mapsto> PStr ''vectors'']
             Map.empty ''return policy'' [''text embedding of return policy''])
     \<in> set (snd (run_until_final_call example_approach (example_env example_documents)
                    example_messages [''retrieval_mode'' \<mapsto> PStr ''vectors''] Map.empty False))
   \<and> \<not> use_text_search [''retrieval_mode'' \<mapsto> PStr ''vectors'']
   \<and> use_vector_search [''retrieval_mode'' \<mapsto> PStr ''vectors'']
   \<and> filter is_embedding_call
        (snd (run_until_final_call example_approach (example_env example_documents)
                example_messages [''retrieval_mode'' \<mapsto> PStr ''vectors''] Map.empty False))
       = [TextEmbedding ''return policy'']
   \<and> \<not> use_vector_search [''retrieval_mode'' \<mapsto> PStr ''text'']
   \<and> filter is_embedding_call
        (snd (run_until_final_call example_approach (example_env example_documents)
                example_messages [''retrieval_mode'' \<mapsto> PStr ''text''] Map.empty False))
       = []"
proof -
  have reach:
    "Search (search_arguments (example_env example_documents) [''retrieval_mode'' \<mapsto> PStr ''vectors'']
             Map.empty ''return policy'' [''text embedding of return policy''])
     \<in> set (snd (run_until_final_call example_approach (example_env example_documents)
                    example_messages [''retrieval_mode'' \<mapsto> PStr ''vectors''] Map.empty False))"
    unfolding run_text_parts by (simp add: eval_simps example_defs)
  have modes: "\<not> use_text_search [''retrieval_mode'' \<mapsto> PStr ''vectors'']"
    "use_vector_search [''retrieval_mode'' \<mapsto> PStr ''vectors'']"
    "\<not> use_vector_search [''retrieval_mode'' \<mapsto> PStr ''text'']"
    by (simp_all add: use_text_search_def use_vector_search_def dict_get_def)
  have q: "sa_query_text (search_arguments (example_env example_documents)
             [''retrieval_mode'' \<mapsto> PStr ''vectors''] Map.empty ''return policy''
             [''text embedding of return policy'']) = ''return policy''"
    by (simp add: search_arguments_def)
  show ?thesis
    using reach modes q
      retrieval_mode_flags [where overrides = "[''retrieval_mode'' \<mapsto> PStr ''vectors'']"
        and a = "search_arguments (example_env example_documents)
                   [''retrieval_mode'' \<mapsto> PStr ''vectors''] Map.empty ''return policy''
                   [''text embedding of return policy'']"
        and self = example_approach and env = "example_env example_documents"
        and messages = example_messages and auth_claims = Map.empty and should_stream = False
        and vself = example_vision_approach]
      retrieval_mode_flags [where overrides = "[''retrieval_mode'' \<mapsto> PStr ''text'']"
        and a = "search_arguments (example_env example_documents)
                   [''retrieval_mode'' \<mapsto> PStr ''vectors''] Map.empty ''return policy''
                   [''text embedding of return policy'']"
        and self = example_approach and env = "example_env example_documents"
        and messages = example_messages and auth_claims = Map.empty and should_stream = False
        and vself = example_vision_approach]
    by simp
qed




text \<open>
  C7.  On the grounded path of the text variant the last prompt built has as new user
  content the original question followed by \<open>"\n\nSources:\n"\<close> and the sources joined
  by newlines, as system prompt the system message, which is computed from the options
  alone, and as token budget the model's limit less 1024.  When the prompt builder
  answers, the run returns, and the pending completion is created on the messages of that
  prompt with the caller's temperature (0.3 when the option is absent), \<open>max_tokens\<close>
  1024, \<open>n\<close> 1, the caller's streaming flag and the caller's seed; when the prompt builder
  raises, so does the run.
\<close>

theorem grounded_prompt_and_completion:
  "Search a \<in> set (snd (run_until_final_call self env messages overrides auth_claims should_stream))
     \<and> search env a = Inr results \<and> results \<noteq> []
   \<longrightarrow> (\<exists>q. content (last messages) = Some (Str q)
          \<and> last (snd (run_until_final_call self env messages overrides auth_claims should_stream))
              = BuildMessages
                  \<lparr>bm_model = chatgpt_model self,
                   bm_system_prompt = system_message env self overrides,
                   bm_tools = None,
                   bm_few_shots = [],
                   bm_past_messages = butlast messages,
                   bm_new_user_content =
                     Str (q @ [CHR 0x0A, CHR 0x0A] @ ''Sources:'' @ [CHR 0x0A]
                          @ join [CHR 0x0A]
                              (get_sources_content env results (sa_use_semantic_captions a) False)),
                   bm_max_tokens = chatgpt_token_limit self - 1024,
                   bm_fallback_to_default = ALLOW_NON_GPT_MODELS self\<rparr>
          \<and> (case build_messages env
                      \<lparr>bm_model = chatgpt_model self,
                       bm_system_prompt = system_message env self overrides,
                       bm_tools = None,
                       bm_few_shots = [],
                       bm_past_messages = butlast messages,
                       bm_new_user_content =
                         Str (q @ [CHR 0x0A, CHR 0x0A] @ ''Sources:'' @ [CHR 0x0A]
                              @ join [CHR 0x0A]
                                  (get_sources_content env results (sa_use_semantic_captions a)
                                     False)),
                       bm_max_tokens = chatgpt_token_limit self - 1024,
                       bm_fallback_to_default = ALLOW_NON_GPT_MODELS self\<rparr> of
                Inl e \<Rightarrow>
                  fst (run_until_final_call self env messages overrides auth_claims should_stream)
                    = Inl e
              | Inr messages' \<Rightarrow>
                  (\<exists>r. fst (run_until_final_call self env messages overrides auth_claims
                              should_stream) = Inr r
                     \<and> chat_coroutine r
                         = \<lparr>cc_model = deployment_or_model (chatgpt_deployment self)
                                          (chatgpt_model self),
                            cc_messages = messages',
                            cc_temperature =
                              (case overrides ''temperature'' of
                                 None \<Rightarrow> PFloat 0.3 | Some t \<Rightarrow> t),
                            cc_max_tokens = 1024,
                            cc_n = 1,
                            cc_tools = None,
                            cc_stream = Some should_stream,
                            cc_seed =
                              (case overrides ''seed'' of None \<Rightarrow> PNone | Some v \<Rightarrow> v)\<rparr>)))"
proof (rule impI)
  assume "Search a \<in> set (snd (run_until_final_call self env messages overrides auth_claims should_stream))
      \<and> search env a = Inr results \<and> results \<noteq> []"
  then have reach: "Search a \<in> set (snd (run_until_final_call self env messages overrides auth_claims should_stream))"
    and found: "search env a = Inr results" and ne: "results \<noteq> []" by simp_all
  from text_reaches_search [OF reach] obtain q qm c vectors where
    h: "messages \<noteq> []" "content (last messages) = Some (Str q)"
       "build_messages env (query_prompt self messages q) = Inr qm"
       "chat_completions_create env (query_completion self overrides qm) = Inr c"
       "fst (query_vectors env overrides (get_search_query env c q)) = Inr vectors"
       "a = search_arguments env overrides auth_claims (get_search_query env c q) vectors"
    by blast
  have s: "search env (search_arguments env overrides auth_claims (get_search_query env c q) vectors)
             = Inr results"
    using found h(6) by simp
  note run = text_after_search [OF h(1-5) s, of should_stream]
  show "\<exists>q. content (last messages) = Some (Str q)
          \<and> last (snd (run_until_final_call self env messages overrides auth_claims should_stream))
              = BuildMessages
                  \<lparr>bm_model = chatgpt_model self,
                   bm_system_prompt = system_message env self overrides,
                   bm_tools = None,
                   bm_few_shots = [],
                   bm_past_messages = butlast messages,
                   bm_new_user_content =
                     Str (q @ [CHR 0x0A, CHR 0x0A] @ ''Sources:'' @ [CHR 0x0A]
                          @ join [CHR 0x0A]
                              (get_sources_content env results (sa_use_semantic_captions a) False)),
                   bm_max_tokens = chatgpt_token_limit self - 1024,
                   bm_fallback_to_default = ALLOW_NON_GPT_MODELS self\<rparr>
          \<and> (case build_messages env
                      \<lparr>bm_model = chatgpt_model self,
                       bm_system_prompt = system_message env self overrides,
                       bm_tools = None,
                       bm_few_shots = [],
                       bm_past_messages = butlast messages,
                       bm_new_user_content =
                         Str (q @ [CHR 0x0A, CHR 0x0A] @ ''Sources:'' @ [CHR 0x0A]
                              @ join [CHR 0x0A]
                                  (get_sources_content env results (sa_use_semantic_captions a)
                                     False)),
                       bm_max_tokens = chatgpt_token_limit self - 1024,
                       bm_fallback_to_default = ALLOW_NON_GPT_MODELS self\<rparr> of
                Inl e \<Rightarrow>
                  fst (run_until_final_call self env messages overrides auth_claims should_stream)
                    = Inl e
              | Inr messages' \<Rightarrow>
                  (\<exists>r. fst (run_until_final_call self env messages overrides auth_claims
                              should_stream) = Inr r
                     \<and> chat_coroutine r
                         = \<lparr>cc_model = deployment_or_model (chatgpt_deployment self)
                                          (chatgpt_model self),
                            cc_messages = messages',
                            cc_temperature =
                              (case overrides ''temperature'' of
                                 None \<Rightarrow> PFloat 0.3 | Some t \<Rightarrow> t),
                            cc_max_tokens = 1024,
                            cc_n = 1,
                            cc_tools = None,
                            cc_stream = Some should_stream,
                            cc_seed =
                              (case overrides ''seed'' of None \<Rightarrow> PNone | Some v \<Rightarrow> v)\<rparr>))"
    apply (rule exI [of _ q])
    apply (simp add: run h(2) answer_step_grounded [OF ne] answer_prompt_def
                     answer_completion_def sources_block_def sources_of_def
                     h(6) search_arguments_def dict_get_def dict_get_default_def
                split: sum.splits)
    done
qed

theorem grounded_prompt_and_completion_witness:
  "Search (search_arguments (example_env example_documents)
             [''temperature'' \<mapsto> PFloat 0.7, ''retrieval_mode'' \<mapsto> PStr ''text''] Map.empty
             ''return policy'' [])
     \<in> set (snd (run_until_final_call example_approach (example_env example_documents)
                    example_messages
                    [''temperature'' \<mapsto> PFloat 0.7, ''retrieval_mode'' \<mapsto> PStr ''text''] Map.empty
                    True))
   \<and> search (example_env example_documents)
        (search_arguments (example_env example_documents)
           [''temperature'' \<mapsto> PFloat 0.7, ''retrieval_mode'' \<mapsto> PStr ''text''] Map.empty
           ''return policy'' []) = Inr example_documents
   \<and> example_documents \<noteq> []
   \<and> final_user_content
        (snd (run_until_final_call example_approach (example_env example_documents)
                example_messages
                [''temperature'' \<mapsto> PFloat 0.7, ''retrieval_mode'' \<mapsto> PStr ''text''] Map.empty True))
       = Some (Str (''What is the return policy?'' @ [CHR 0x0A, CHR 0x0A] @ ''Sources:'' @ [CHR 0x0A]
                    @ ''policy.pdf#p3: Returns accepted within 30 days.'' @ [CHR 0x0A]
                    @ ''faq.pdf#p1: Keep the receipt.''))
   \<and> map_option cc_temperature
        (map_option chat_coroutine
           (case fst (run_until_final_call example_approach (example_env example_documents)
                        example_messages
                        [''temperature'' \<mapsto> PFloat 0.7, ''retrieval_mode'' \<mapsto> PStr ''text'']
                        Map.empty True) of
              Inl e \<Rightarrow> None | Inr r \<Rightarrow> Some r))
       = Some (PFloat 0.7)"
proof -
  have hyp:
    "Search (search_arguments (example_env example_documents)
             [''temperature'' \<mapsto> PFloat 0.7, ''retrieval_mode'' \<mapsto> PStr ''text''] Map.empty
             ''return policy'' [])
     \<in> set (snd (run_until_final_call example_approach (example_env example_documents)
                    example_messages
                    [''temperature'' \<mapsto> PFloat 0.7, ''retrieval_mode'' \<mapsto> PStr ''text''] Map.empty
                    True))
     \<and> search (example_env example_documents)
        (search_arguments (example_env example_documents)
           [''temperature'' \<mapsto> PFloat 0.7, ''retrieval_mode'' \<mapsto> PStr ''text''] Map.empty
           ''return policy'' []) = Inr example_documents
     \<and> example_documents \<noteq> []"
    unfolding run_text_parts by (simp add: eval_simps example_defs)
  have rest: "final_user_content
        (snd (run_until_final_call example_approach (example_env example_documents)
                example_messages
                [''temperature'' \<mapsto> PFloat 0.7, ''retrieval_mode'' \<mapsto> PStr ''text''] Map.empty True))
       = Some (Str (''What is the return policy?'' @ [CHR 0x0A, CHR 0x0A] @ ''Sources:'' @ [CHR 0x0A]
                    @ ''policy.pdf#p3: Returns accepted within 30 days.'' @ [CHR 0x0A]
                    @ ''faq.pdf#p1: Keep the receipt.''))
   \<and> map_option cc_temperature
        (map_option chat_coroutine
           (case fst (run_until_final_call example_approach (example_env example_documents)
                        example_messages
                        [''temperature'' \<mapsto> PFloat 0.7, ''retrieval_mode'' \<mapsto> PStr ''text'']
                        Map.empty True) of
              Inl e \<Rightarrow> None | Inr r \<Rightarrow> Some r))
       = Some (PFloat 0.7)"
    unfolding run_text_parts
    by (simp add: eval_simps example_defs sources_of_def get_sources_content_def
          sources_block_def answer_completion_def)
  from grounded_prompt_and_completion [rule_format, OF hyp]
  show ?thesis using hyp rest by simp
qed

text \<open>
  C8.  In the vision variant, when images are sent (\<open>gpt4v_input\<close> is \<open>"textAndImages"\<close>,
  \<open>"images"\<close> or absent) and the search answered, and every fetch answers, with a URL or
  with none: one fetch is awaited for each result, in order, and none of them fails the
  run; the last call of the run builds the final prompt, whose new user content, with
  \<open>gpt4v_input = "images"\<close>, is one text part, the original question, followed by one
  image part for each resolved URL; and the run ends as the prompt builder does: if it
  raises, with its exception, otherwise it returns, \<open>data_points.images\<close> being the list
  of the URLs resolved, in the order of the results, a result without URL contributing
  nothing, and the pending completion carrying the messages built.
\<close>

theorem images_fetched_and_sent:
  "overrides ''gpt4v_input'' \<in> {None, Some PNone, Some (PStr ''textAndImages''), Some (PStr ''images'')}
     \<and> Search a \<in> set (snd (run_until_final_call_vision vself env messages overrides auth_claims should_stream))
     \<and> search env a = Inr results
     \<and> (\<forall>d\<in>set results. \<exists>u. fetch_image env d = Inr u)
   \<longrightarrow> filter is_fetch_call
         (snd (run_until_final_call_vision vself env messages overrides auth_claims should_stream))
       = map FetchImage results
     \<and> (\<exists>q args. content (last messages) = Some (Str q)
          \<and> last (snd (run_until_final_call_vision vself env messages overrides auth_claims
                         should_stream))
            = BuildMessages args
          \<and> (overrides ''gpt4v_input'' = Some (PStr ''images'')
             \<longrightarrow> args
                 = \<lparr>bm_model = gpt4v_model vself,
                    bm_system_prompt = system_message env vself overrides,
                    bm_tools = None,
                    bm_few_shots = [],
                    bm_past_messages = butlast messages,
                    bm_new_user_content =
                      Parts (TextPart q # map ImageUrlPart (resolved_urls env results)),
                    bm_max_tokens = chatgpt_token_limit vself - 1024,
                    bm_fallback_to_default = ALLOW_NON_GPT_MODELS vself\<rparr>)
          \<and> (case build_messages env args of
                Inl e \<Rightarrow>
                  fst (run_until_final_call_vision vself env messages overrides auth_claims
                         should_stream) = Inl e
              | Inr messages' \<Rightarrow>
                  (\<exists>r. fst (run_until_final_call_vision vself env messages overrides auth_claims
                               should_stream) = Inr r
                     \<and> dp_images (returned_data_points r) = Some (resolved_urls env results)
                     \<and> cc_messages (chat_coroutine r) = messages')))"
proof (rule impI)
  assume "overrides ''gpt4v_input'' \<in> {None, Some PNone, Some (PStr ''textAndImages''), Some (PStr ''images'')}
     \<and> Search a \<in> set (snd (run_until_final_call_vision vself env messages overrides auth_claims should_stream))
     \<and> search env a = Inr results
     \<and> (\<forall>d\<in>set results. \<exists>u. fetch_image env d = Inr u)"
  then have send: "send_images_to_gptvision overrides"
    and reach: "Search a \<in> set (snd (run_until_final_call_vision vself env messages overrides auth_claims should_stream))"
    and found: "search env a = Inr results"
    and answers: "\<forall>d\<in>set results. \<exists>u. fetch_image env d = Inr u"
    by (simp_all add: send_images_iff)
  from vision_reaches_search [OF reach] obtain q qm c vectors where
    h: "messages \<noteq> []" "content (last messages) = Some (Str q)"
       "build_messages env (vision_query_prompt vself messages q) = Inr qm"
       "chat_completions_create env (vision_query_completion vself overrides qm) = Inr c"
       "fst (vision_query_vectors env overrides (get_search_query env c q)) = Inr vectors"
       "a = search_arguments env overrides auth_claims (get_search_query env c q) vectors"
    by blast
  have s: "search env (search_arguments env overrides auth_claims (get_search_query env c q) vectors)
             = Inr results"
    using found h(6) by simp
  have images: "vision_images env overrides results
                  = (Inr (resolved_urls env results), map FetchImage results)"
    using vision_images_total [OF answers, of overrides] send by simp
  have i: "fst (vision_images env overrides results) = Inr (resolved_urls env results)"
    by (simp add: images)
  note run = vision_after_search [OF h(1-5) s i, of should_stream]
  have fetches: "filter is_fetch_call
         (snd (run_until_final_call_vision vself env messages overrides auth_claims should_stream))
       = map FetchImage results"
    by (simp add: run images vision_query_vectors_no_fetch vision_answer_step_trace
          filter_id_conv)
  have content': "vision_user_content env overrides q results (resolved_urls env results)
                   = TextPart q # map ImageUrlPart (resolved_urls env results)"
    if "overrides ''gpt4v_input'' = Some (PStr ''images'')"
    using images_only [of overrides] that by (simp add: vision_user_content_def)
  have final: "\<exists>q args. content (last messages) = Some (Str q)
          \<and> last (snd (run_until_final_call_vision vself env messages overrides auth_claims
                         should_stream))
            = BuildMessages args
          \<and> (overrides ''gpt4v_input'' = Some (PStr ''images'')
             \<longrightarrow> args
                 = \<lparr>bm_model = gpt4v_model vself,
                    bm_system_prompt = system_message env vself overrides,
                    bm_tools = None,
                    bm_few_shots = [],
                    bm_past_messages = butlast messages,
                    bm_new_user_content =
                      Parts (TextPart q # map ImageUrlPart (resolved_urls env results)),
                    bm_max_tokens = chatgpt_token_limit vself - 1024,
                    bm_fallback_to_default = ALLOW_NON_GPT_MODELS vself\<rparr>)
          \<and> (case build_messages env args of
                Inl e \<Rightarrow>
                  fst (run_until_final_call_vision vself env messages overrides auth_claims
                         should_stream) = Inl e
              | Inr messages' \<Rightarrow>
                  (\<exists>r. fst (run_until_final_call_vision vself env messages overrides auth_claims
                               should_stream) = Inr r
                     \<and> dp_images (returned_data_points r) = Some (resolved_urls env results)
                     \<and> cc_messages (chat_coroutine r) = messages'))"
    apply (rule exI [of _ q])
    apply (rule exI [of _ "vision_answer_prompt vself env messages overrides
                             (vision_user_content env overrides q results
                                (resolved_urls env results))"])
    apply (intro conjI)
       apply (rule h(2))
      apply (simp add: run vision_answer_step_trace)
     apply (simp add: content' vision_answer_prompt_def)
    apply (simp add: run vision_answer_step_eq vision_answer_completion_def split: sum.splits)
    done
  from fetches final
  show "filter is_fetch_call
         (snd (run_until_final_call_vision vself env messages overrides auth_claims should_stream))
       = map FetchImage results
     \<and> (\<exists>q args. content (last messages) = Some (Str q)
          \<and> last (snd (run_until_final_call_vision vself env messages overrides auth_claims
                         should_stream))
            = BuildMessages args
          \<and> (overrides ''gpt4v_input'' = Some (PStr ''images'')
             \<longrightarrow> args
                 = \<lparr>bm_model = gpt4v_model vself,
                    bm_system_prompt = system_message env vself overrides,
                    bm_tools = None,
                    bm_few_shots = [],
                    bm_past_messages = butlast messages,
                    bm_new_user_content =
                      Parts (TextPart q # map ImageUrlPart (resolved_urls env results)),
                    bm_max_tokens = chatgpt_token_limit vself - 1024,
                    bm_fallback_to_default = ALLOW_NON_GPT_MODELS vself\<rparr>)
          \<and> (case build_messages env args of
                Inl e \<Rightarrow>
                  fst (run_until_final_call_vision vself env messages overrides auth_claims
                         should_stream) = Inl e
              | Inr messages' \<Rightarrow>
                  (\<exists>r. fst (run_until_final_call_vision vself env messages overrides auth_claims
                               should_stream) = Inr r
                     \<and> dp_images (returned_data_points r) = Some (resolved_urls env results)
                     \<and> cc_messages (chat_coroutine r) = messages')))"
    by (rule conjI)
qed

theorem images_fetched_and_sent_witness:
  "[''gpt4v_input'' \<mapsto> PStr ''images''] ''gpt4v_input''
      \<in> {None, Some PNone, Some (PStr ''textAndImages''), Some (PStr ''images'')}
   \<and> Search (search_arguments (example_env example_documents) [''gpt4v_input'' \<mapsto> PStr ''images'']
               Map.empty ''return policy'' [''text embedding of return policy''])
       \<in> set (snd (run_until_final_call_vision example_vision_approach (example_env example_documents)
                      example_messages [''gpt4v_input'' \<mapsto> PStr ''images''] Map.empty False))
   \<and> search (example_env example_documents)
        (search_arguments (example_env example_documents) [''gpt4v_input'' \<mapsto> PStr ''images'']
           Map.empty ''return policy'' [''text embedding of return policy'']) = Inr example_documents
   \<and> map (fetch_image (example_env example_documents)) example_documents
       = [Inr (Some ''https://blob/policy-p3.png''), Inr None]
   \<and> resolved_urls (example_env example_documents) example_documents = [''https://blob/policy-p3.png'']
   \<and> filter is_fetch_call
        (snd (run_until_final_call_vision example_vision_approach (example_env example_documents)
                example_messages [''gpt4v_input'' \<mapsto> PStr ''images''] Map.empty False))
       = map FetchImage example_documents
   \<and> map_option dp_images
        (result_data_points
           (run_until_final_call_vision example_vision_approach (example_env example_documents)
              example_messages [''gpt4v_input'' \<mapsto> PStr ''images''] Map.empty False))
       = Some (Some [''https://blob/policy-p3.png''])
   \<and> final_user_content
        (snd (run_until_final_call_vision example_vision_approach (example_env example_documents)
                example_messages [''gpt4v_input'' \<mapsto> PStr ''images''] Map.empty False))
       = Some (Parts [TextPart ''What is the return policy?'',
                      ImageUrlPart ''https://blob/policy-p3.png''])"
proof -
  have q: "last_message_content example_messages = Inr ''What is the return policy?''"
    by (simp add: last_message_content_def example_messages_def)
  have hyp: "[''gpt4v_input'' \<mapsto> PStr ''images''] ''gpt4v_input''
      \<in> {None, Some PNone, Some (PStr ''textAndImages''), Some (PStr ''images'')}
   \<and> Search (search_arguments (example_env example_documents) [''gpt4v_input'' \<mapsto> PStr ''images'']
               Map.empty ''return policy'' [''text embedding of return policy''])
       \<in> set (snd (run_until_final_call_vision example_vision_approach (example_env example_documents)
                      example_messages [''gpt4v_input'' \<mapsto> PStr ''images''] Map.empty False))
   \<and> search (example_env example_documents)
        (search_arguments (example_env example_documents) [''gpt4v_input'' \<mapsto> PStr ''images'']
           Map.empty ''return policy'' [''text embedding of return policy'']) = Inr example_documents
   \<and> (\<forall>d\<in>set example_documents. \<exists>u. fetch_image (example_env example_documents) d = Inr u)"
    unfolding run_vision_parts by (simp add: eval_simps example_defs)
  have fetches: "map (fetch_image (example_env example_documents)) example_documents
       = [Inr (Some ''https://blob/policy-p3.png''), Inr None]"
    by (simp add: example_defs)
  have urls: "resolved_urls (example_env example_documents) example_documents
                = [''https://blob/policy-p3.png'']"
    by (simp add: example_defs)
  have user: "final_user_content
        (snd (run_until_final_call_vision example_vision_approach (example_env example_documents)
                example_messages [''gpt4v_input'' \<mapsto> PStr ''images''] Map.empty False))
       = Some (Parts [TextPart ''What is the return policy?'',
                      ImageUrlPart ''https://blob/policy-p3.png''])"
    unfolding run_vision_parts by (simp add: eval_simps example_defs vision_user_content_def)
  from images_fetched_and_sent
         [where overrides = "[''gpt4v_input'' \<mapsto> PStr ''images'']"
            and a = "search_arguments (example_env example_documents)
                       [''gpt4v_input'' \<mapsto> PStr ''images''] Map.empty ''return policy''
                       [''text embedding of return policy'']"
            and vself = example_vision_approach and env = "example_env example_documents"
            and messages = example_messages and auth_claims = Map.empty and should_stream = False
            and results = example_documents]
       hyp
  obtain q' args where
    r: "filter is_fetch_call
          (snd (run_until_final_call_vision example_vision_approach (example_env example_documents)
                  example_messages [''gpt4v_input'' \<mapsto> PStr ''images''] Map.empty False))
        = map FetchImage example_documents"
       "case build_messages (example_env example_documents) args of
          Inl e \<Rightarrow>
            fst (run_until_final_call_vision example_vision_approach (example_env example_documents)
                   example_messages [''gpt4v_input'' \<mapsto> PStr ''images''] Map.empty False) = Inl e
        | Inr messages' \<Rightarrow>
            (\<exists>r. fst (run_until_final_call_vision example_vision_approach
                         (example_env example_documents) example_messages
                         [''gpt4v_input'' \<mapsto> PStr ''images''] Map.empty False) = Inr r
               \<and> dp_images (returned_data_points r)
                 = Some (resolved_urls (example_env example_documents) example_documents)
               \<and> cc_messages (chat_coroutine r) = messages')"
       "args = \<lparr>bm_model = gpt4v_model example_vision_approach,
                bm_system_prompt = system_message (example_env example_documents)
                                     example_vision_approach [''gpt4v_input'' \<mapsto> PStr ''images''],
                bm_tools = None,
                bm_few_shots = [],
                bm_past_messages = butlast example_messages,
                bm_new_user_content =
                  Parts (TextPart q' # map ImageUrlPart
                           (resolved_urls (example_env example_documents) example_documents)),
                bm_max_tokens = chatgpt_token_limit example_vision_approach - 1024,
                bm_fallback_to_default = ALLOW_NON_GPT_MODELS example_vision_approach\<rparr>"
    by auto
  have returns: "build_messages (example_env example_documents) args \<noteq> Inl e" for e
    by (simp add: r(3) example_defs)
  have "map_option dp_images
        (result_data_points
           (run_until_final_call_vision example_vision_approach (example_env example_documents)
              example_messages [''gpt4v_input'' \<mapsto> PStr ''images''] Map.empty False))
       = Some (Some [''https://blob/policy-p3.png''])"
    using r(2) returns urls
    by (cases "build_messages (example_env example_documents) args")
       (auto simp: result_data_points_def)
  then show ?thesis
    using hyp urls fetches user r(1) by simp
qed

text \<open>
  C9.  The returned \<open>data_points\<close> and \<open>thoughts\<close> are a function of the messages, the
  options, the claims and the answers of the collaborators to the calls the run makes.
  Take a run against \<open>env\<close> and a second run, on the same approach object, messages,
  options and claims, against \<open>env'\<close>, with any streaming flags: if \<open>env'\<close> gives the
  same answer as \<open>env\<close> to every call of the first run (and the object's own methods are
  the same), then the second run makes the same calls, raises the same exception if
  any, and returns the same \<open>data_points\<close> and \<open>thoughts\<close>.  This holds in both variants.
\<close>

theorem metadata_deterministic:
  "(same_methods env env'
      \<and> (\<forall>c\<in>set (snd (run_until_final_call self env messages overrides auth_claims should_stream)).
            same_answer env env' c)
    \<longrightarrow> snd (run_until_final_call self env' messages overrides auth_claims should_stream')
          = snd (run_until_final_call self env messages overrides auth_claims should_stream)
      \<and> result_error (run_until_final_call self env' messages overrides auth_claims should_stream')
          = result_error (run_until_final_call self env messages overrides auth_claims should_stream)
      \<and> result_data_points (run_until_final_call self env' messages overrides auth_claims should_stream')
          = result_data_points (run_until_final_call self env messages overrides auth_claims should_stream)
      \<and> result_thoughts (run_until_final_call self env' messages overrides auth_claims should_stream')
          = result_thoughts (run_until_final_call self env messages overrides auth_claims should_stream))
   \<and> (same_methods env env'
      \<and> (\<forall>c\<in>set (snd (run_until_final_call_vision vself env messages overrides auth_claims should_stream)).
            same_answer env env' c)
    \<longrightarrow> snd (run_until_final_call_vision vself env' messages overrides auth_claims should_stream')
          = snd (run_until_final_call_vision vself env messages overrides auth_claims should_stream)
      \<and> result_error (run_until_final_call_vision vself env' messages overrides auth_claims should_stream')
          = result_error (run_until_final_call_vision vself env messages overrides auth_claims should_stream)
      \<and> result_data_points (run_until_final_call_vision vself env' messages overrides auth_claims should_stream')
          = result_data_points (run_until_final_call_vision vself env messages overrides auth_claims should_stream)
      \<and> result_thoughts (run_until_final_call_vision vself env' messages overrides auth_claims should_stream')
          = result_thoughts (run_until_final_call_vision vself env messages overrides auth_claims should_stream))"
  using text_runs_similar [of env env' self messages overrides auth_claims should_stream should_stream']
    vision_runs_similar [of env env' vself messages overrides auth_claims should_stream should_stream']
  by (simp add: same_metadata_def)

theorem metadata_deterministic_witness:
  "same_methods (example_env example_documents)
     ((example_env example_documents)
        \<lparr>search := (\<lambda>args. if sa_query_text args = ''return policy'' then Inr example_documents
                           else Inl ''index unavailable''),
         compute_image_embedding := (\<lambda>q. Inl ''no vision endpoint'')\<rparr>)
   \<and> list_all
        (same_answer (example_env example_documents)
           ((example_env example_documents)
              \<lparr>search := (\<lambda>args. if sa_query_text args = ''return policy'' then Inr example_documents
                                 else Inl ''index unavailable''),
               compute_image_embedding := (\<lambda>q. Inl ''no vision endpoint'')\<rparr>))
        (snd (run_until_final_call example_approach (example_env example_documents)
                example_messages Map.empty Map.empty False))
   \<and> list_all
        (same_answer (example_env example_documents)
           ((example_env example_documents)
              \<lparr>search := (\<lambda>args. if sa_query_text args = ''return policy'' then Inr example_documents
                                 else Inl ''index unavailable''),
               compute_image_embedding := (\<lambda>q. Inl ''no vision endpoint'')\<rparr>))
        (snd (run_until_final_call_vision example_vision_approach (example_env example_documents)
                example_messages Map.empty Map.empty False))
   \<and> result_thoughts
        (run_until_final_call example_approach
           ((example_env example_documents)
              \<lparr>search := (\<lambda>args. if sa_query_text args = ''return policy'' then Inr example_documents
                                 else Inl ''index unavailable''),
               compute_image_embedding := (\<lambda>q. Inl ''no vision endpoint'')\<rparr>)
           example_messages Map.empty Map.empty True)
       = result_thoughts
           (run_until_final_call example_approach (example_env example_documents)
              example_messages Map.empty Map.empty False)
   \<and> result_data_points
        (run_until_final_call_vision example_vision_approach
           ((example_env example_documents)
              \<lparr>search := (\<lambda>args. if sa_query_text args = ''return policy'' then Inr example_documents
                                 else Inl ''index unavailable''),
               compute_image_embedding := (\<lambda>q. Inl ''no vision endpoint'')\<rparr>)
           example_messages Map.empty Map.empty True)
       = result_data_points
           (run_until_final_call_vision example_vision_approach (example_env example_documents)
              example_messages Map.empty Map.empty False)"
proof -
  have methods: "same_methods (example_env example_documents)
     ((example_env example_documents)
        \<lparr>search := (\<lambda>args. if sa_query_text args = ''return policy'' then Inr example_documents
                           else Inl ''index unavailable''),
         compute_image_embedding := (\<lambda>q. Inl ''no vision endpoint'')\<rparr>)"
    by (simp add: same_methods_def)
  have text_answers: "list_all
        (same_answer (example_env example_documents)
           ((example_env example_documents)
              \<lparr>search := (\<lambda>args. if sa_query_text args = ''return policy'' then Inr example_documents
                                 else Inl ''index unavailable''),
               compute_image_embedding := (\<lambda>q. Inl ''no vision endpoint'')\<rparr>))
        (snd (run_until_final_call example_approach (example_env example_documents)
                example_messages Map.empty Map.empty False))"
    unfolding run_text_parts
    by (simp add: eval_simps example_defs search_arguments_def)
  have vision_answers: "list_all
        (same_answer (example_env example_documents)
           ((example_env example_documents)
              \<lparr>search := (\<lambda>args. if sa_query_text args = ''return policy'' then Inr example_documents
                                 else Inl ''index unavailable''),
               compute_image_embedding := (\<lambda>q. Inl ''no vision endpoint'')\<rparr>))
        (snd (run_until_final_call_vision example_vision_approach (example_env example_documents)
                example_messages Map.empty Map.empty False))"
    unfolding run_vision_parts
    by (simp add: eval_simps example_defs search_arguments_def)
  show ?thesis
    using methods text_answers vision_answers
      metadata_deterministic
        [where env = "example_env example_documents"
           and env' = "(example_env example_documents)
              \<lparr>search := (\<lambda>args. if sa_query_text args = ''return policy'' then Inr example_documents
                                 else Inl ''index unavailable''),
               compute_image_embedding := (\<lambda>q. Inl ''no vision endpoint'')\<rparr>"
           and self = example_approach and vself = example_vision_approach
           and messages = example_messages and overrides = Map.empty and auth_claims = Map.empty
           and should_stream = False and should_stream' = True]
    by (simp add: list_all_iff)
qed

text \<open>
  C10.  When \<open>retrieval_mode\<close> is present with a value other than \<open>"text"\<close>, \<open>"vectors"\<close>
  and \<open>"hybrid"\<close> (and other than \<open>None\<close>, which reads as absent), both flags are false, no
  run of either variant computes an embedding, and the option is not rejected: whenever
  the model answered the query step, the search is called, with both flags false and no
  vector.
\<close>

theorem unknown_retrieval_mode:
  "overrides ''retrieval_mode'' = Some v
     \<and> v \<notin> {PStr ''text'', PStr ''vectors'', PStr ''hybrid'', PNone}
   \<longrightarrow> \<not> use_text_search overrides \<and> \<not> use_vector_search overrides
     \<and> filter is_embedding_call
          (snd (run_until_final_call self env messages overrides auth_claims should_stream)) = []
     \<and> filter is_embedding_call
          (snd (run_until_final_call_vision vself env messages overrides auth_claims should_stream)) = []
     \<and> (ChatCompletion qc
           \<in> set (snd (run_until_final_call self env messages overrides auth_claims should_stream))
         \<and> chat_completions_create env qc = Inr c
        \<longrightarrow> (\<exists>a. Search a
                    \<in> set (snd (run_until_final_call self env messages overrides auth_claims should_stream))
               \<and> \<not> sa_use_text_search a \<and> \<not> sa_use_vector_search a \<and> sa_vectors a = []))
     \<and> (ChatCompletion qc
           \<in> set (snd (run_until_final_call_vision vself env messages overrides auth_claims should_stream))
         \<and> chat_completions_create env qc = Inr c
        \<longrightarrow> (\<exists>a. Search a
                    \<in> set (snd (run_until_final_call_vision vself env messages overrides auth_claims should_stream))
               \<and> \<not> sa_use_text_search a \<and> \<not> sa_use_vector_search a \<and> sa_vectors a = []))"
proof (rule impI)
  assume "overrides ''retrieval_mode'' = Some v
     \<and> v \<notin> {PStr ''text'', PStr ''vectors'', PStr ''hybrid'', PNone}"
  then have text_off: "\<not> use_text_search overrides" and vector_off: "\<not> use_vector_search overrides"
    by (auto simp: use_text_search_def use_vector_search_def dict_get_def)
  have no_text_embedding: "filter is_embedding_call
          (snd (run_until_final_call self env messages overrides auth_claims should_stream)) = []"
  proof (cases messages rule: last_message_content_cases)
    case (invalid e)
    then show ?thesis by (simp add: text_invalid)
  next
    case (valid q)
    show ?thesis using vector_off by (simp add: text_embedding_calls [OF valid] split: sum.splits)
  qed
  have no_vision_embedding: "filter is_embedding_call
          (snd (run_until_final_call_vision vself env messages overrides auth_claims should_stream)) = []"
  proof (cases messages rule: last_message_content_cases)
    case (invalid e)
    then show ?thesis by (simp add: vision_invalid)
  next
    case (valid q)
    show ?thesis
      by (simp add: vision_embedding_calls [OF valid] vision_query_vectors_off [OF vector_off]
               split: sum.splits)
  qed
  have text_search: "\<exists>a. Search a
                    \<in> set (snd (run_until_final_call self env messages overrides auth_claims should_stream))
               \<and> \<not> sa_use_text_search a \<and> \<not> sa_use_vector_search a \<and> sa_vectors a = []"
    if "ChatCompletion qc
           \<in> set (snd (run_until_final_call self env messages overrides auth_claims should_stream))
         \<and> chat_completions_create env qc = Inr c"
  proof -
    from that text_completion_unique [of qc self env messages overrides auth_claims should_stream]
    obtain q qm where
      u: "last_message_content messages = Inr q"
         "build_messages env (query_prompt self messages q) = Inr qm"
         "qc = query_completion self overrides qm"
      by blast
    from that have c: "chat_completions_create env qc = Inr c" by simp
    show ?thesis
      apply (rule exI [of _ "search_arguments env overrides auth_claims (get_search_query env c q) []"])
      using c text_off vector_off
      apply (simp add: text_trace [OF u(1)] u(2) u(3) [symmetric] query_vectors_value
                       query_vectors_trace search_arguments_def)
      done
  qed
  have vision_search: "\<exists>a. Search a
                    \<in> set (snd (run_until_final_call_vision vself env messages overrides auth_claims should_stream))
               \<and> \<not> sa_use_text_search a \<and> \<not> sa_use_vector_search a \<and> sa_vectors a = []"
    if "ChatCompletion qc
           \<in> set (snd (run_until_final_call_vision vself env messages overrides auth_claims should_stream))
         \<and> chat_completions_create env qc = Inr c"
  proof -
    from that vision_completion_unique [of qc vself env messages overrides auth_claims should_stream]
    obtain q qm where
      u: "last_message_content messages = Inr q"
         "build_messages env (vision_query_prompt vself messages q) = Inr qm"
         "qc = vision_query_completion vself overrides qm"
      by blast
    from that have c: "chat_completions_create env qc = Inr c" by simp
    show ?thesis
      apply (rule exI [of _ "search_arguments env overrides auth_claims (get_search_query env c q) []"])
      using c text_off vector_off
      apply (simp add: vision_trace [OF u(1)] u(2) u(3) [symmetric] vision_query_vectors_off
                       search_arguments_def)
      done
  qed
  show "\<not> use_text_search overrides \<and> \<not> use_vector_search overrides
     \<and> filter is_embedding_call
          (snd (run_until_final_call self env messages overrides auth_claims should_stream)) = []
     \<and> filter is_embedding_call
          (snd (run_until_final_call_vision vself env messages overrides auth_claims should_stream)) = []
     \<and> (ChatCompletion qc
           \<in> set (snd (run_until_final_call self env messages overrides auth_claims should_stream))
         \<and> chat_completions_create env qc = Inr c
        \<longrightarrow> (\<exists>a. Search a
                    \<in> set (snd (run_until_final_call self env messages overrides auth_claims should_stream))
               \<and> \<not> sa_use_text_search a \<and> \<not> sa_use_vector_search a \<and> sa_vectors a = []))
     \<and> (ChatCompletion qc
           \<in> set (snd (run_until_final_call_vision vself env messages overrides auth_claims should_stream))
         \<and> chat_completions_create env qc = Inr c
        \<longrightarrow> (\<exists>a. Search a
                    \<in> set (snd (run_until_final_call_vision vself env messages overrides auth_claims should_stream))
               \<and> \<not> sa_use_text_search a \<and> \<not> sa_use_vector_search a \<and> sa_vectors a = []))"
    using text_off vector_off no_text_embedding no_vision_embedding text_search vision_search
    by blast
qed

theorem unknown_retrieval_mode_witness:
  "[''retrieval_mode'' \<mapsto> PStr ''none''] ''retrieval_mode'' = Some (PStr ''none'')
   \<and> PStr ''none'' \<notin> {PStr ''text'', PStr ''vectors'', PStr ''hybrid'', PNone}
   \<and> ChatCompletion
        (query_completion example_approach [''retrieval_mode'' \<mapsto> PStr ''none'']
           [\<lparr>role = ''system'', content = Some (Str ''Generate a search query.'')\<rparr>,
            \<lparr>role = ''user'',
             content = Some (Str ''Generate search query for: What is the return policy?'')\<rparr>])
       \<in> set (snd (run_until_final_call example_approach (example_env example_documents)
                      example_messages [''retrieval_mode'' \<mapsto> PStr ''none''] Map.empty False))
   \<and> ChatCompletion
        (vision_query_completion example_vision_approach [''retrieval_mode'' \<mapsto> PStr ''none'']
           [\<lparr>role = ''system'', content = Some (Str ''Generate a search query.'')\<rparr>,
            \<lparr>role = ''user'',
             content = Some (Str ''Generate search query for: What is the return policy?'')\<rparr>])
       \<in> set (snd (run_until_final_call_vision example_vision_approach (example_env example_documents)
                      example_messages [''retrieval_mode'' \<mapsto> PStr ''none''] Map.empty False))
   \<and> filter is_embedding_call
        (snd (run_until_final_call example_approach (example_env example_documents)
                example_messages [''retrieval_mode'' \<mapsto> PStr ''none''] Map.empty False)) = []
   \<and> Search (search_arguments (example_env example_documents) [''retrieval_mode'' \<mapsto> PStr ''none'']
               Map.empty ''return policy'' [])
       \<in> set (snd (run_until_final_call example_approach (example_env example_documents)
                      example_messages [''retrieval_mode'' \<mapsto> PStr ''none''] Map.empty False))
   \<and> Search (search_arguments (example_env example_documents) [''retrieval_mode'' \<mapsto> PStr ''none'']
               Map.empty ''return policy'' [])
       \<in> set (snd (run_until_final_call_vision example_vision_approach (example_env example_documents)
                      example_messages [''retrieval_mode'' \<mapsto> PStr ''none''] Map.empty False))"
proof -
  have hyp: "[''retrieval_mode'' \<mapsto> PStr ''none''] ''retrieval_mode'' = Some (PStr ''none'')
     \<and> PStr ''none'' \<notin> {PStr ''text'', PStr ''vectors'', PStr ''hybrid'', PNone}"
    by simp
  have q: "last_message_content example_messages = Inr ''What is the return policy?''"
    by (simp add: last_message_content_def example_messages_def)
  have off: "\<not> use_vector_search [''retrieval_mode'' \<mapsto> PStr ''none'']"
    by (simp add: use_vector_search_def dict_get_def)
  have built:
    "build_messages (example_env example_documents)
       (query_prompt example_approach example_messages ''What is the return policy?'')
     = Inr [\<lparr>role = ''system'', content = Some (Str ''Generate a search query.'')\<rparr>,
            \<lparr>role = ''user'',
             content = Some (Str ''Generate search query for: What is the return policy?'')\<rparr>]"
    "build_messages (example_env example_documents)
       (vision_query_prompt example_vision_approach example_messages ''What is the return policy?'')
     = Inr [\<lparr>role = ''system'', content = Some (Str ''Generate a search query.'')\<rparr>,
            \<lparr>role = ''user'',
             content = Some (Str ''Generate search query for: What is the return policy?'')\<rparr>]"
    by (simp_all add: query_prompt_def vision_query_prompt_def example_defs)
  have answers: "chat_completions_create (example_env example_documents) args = Inr ''return policy''"
    "search (example_env example_documents) sargs = Inr example_documents"
    "get_search_query (example_env example_documents) ''return policy'' original = ''return policy''"
    for args sargs original
    by (simp_all add: example_env_def)
  have traces:
    "ChatCompletion
        (query_completion example_approach [''retrieval_mode'' \<mapsto> PStr ''none'']
           [\<lparr>role = ''system'', content = Some (Str ''Generate a search query.'')\<rparr>,
            \<lparr>role = ''user'',
             content = Some (Str ''Generate search query for: What is the return policy?'')\<rparr>])
       \<in> set (snd (run_until_final_call example_approach (example_env example_documents)
                      example_messages [''retrieval_mode'' \<mapsto> PStr ''none''] Map.empty False))"
    "ChatCompletion
        (vision_query_completion example_vision_approach [''retrieval_mode'' \<mapsto> PStr ''none'']
           [\<lparr>role = ''system'', content = Some (Str ''Generate a search query.'')\<rparr>,
            \<lparr>role = ''user'',
             content = Some (Str ''Generate search query for: What is the return policy?'')\<rparr>])
       \<in> set (snd (run_until_final_call_vision example_vision_approach (example_env example_documents)
                      example_messages [''retrieval_mode'' \<mapsto> PStr ''none''] Map.empty False))"
    "Search (search_arguments (example_env example_documents) [''retrieval_mode'' \<mapsto> PStr ''none'']
               Map.empty ''return policy'' [])
       \<in> set (snd (run_until_final_call example_approach (example_env example_documents)
                      example_messages [''retrieval_mode'' \<mapsto> PStr ''none''] Map.empty False))"
    "Search (search_arguments (example_env example_documents) [''retrieval_mode'' \<mapsto> PStr ''none'']
               Map.empty ''return policy'' [])
       \<in> set (snd (run_until_final_call_vision example_vision_approach (example_env example_documents)
                      example_messages [''retrieval_mode'' \<mapsto> PStr ''none''] Map.empty False))"
    by (simp_all add: text_trace [OF q] vision_trace [OF q] built answers query_vectors_value
          query_vectors_trace vision_query_vectors_off off)
  from unknown_retrieval_mode [where overrides = "[''retrieval_mode'' \<mapsto> PStr ''none'']"
         and v = "PStr ''none''" and self = example_approach
         and env = "example_env example_documents" and messages = example_messages
         and auth_claims = Map.empty and should_stream = False and vself = example_vision_approach]
  show ?thesis using hyp traces by simp
qed

end
